theory Spec2Isabelle
  imports Complex_Main "HOL-Library.AList"
begin

section \<open>Python values, exceptions and strings\<close>

text \<open>
  Exceptions are values. An exception carries its class, its message and the text that
  \<^verbatim>\<open>traceback.format_exc()\<close> returns while it is being handled. \<^verbatim>\<open>except Exception\<close>
  catches every class but the two that derive from \<^verbatim>\<open>BaseException\<close> directly.
\<close>

datatype exn_kind =
    IndexError | TypeError | KeyError | ValueError | UnboundLocalError
  | AssertionError | NotImplementedError | RuntimeError
  | FileExistsError | FileNotFoundError | IsADirectoryError | NotADirectoryError
  | SameFileError | OSError | ZeroDivisionError
  | NotFound | DuplicateKey
  | SystemExit | KeyboardInterrupt

datatype py_exn = Exn (exn_class: exn_kind) (exn_message: string) (exn_tb: string)

definition is_Exception :: "py_exn \<Rightarrow> bool" where
  "is_Exception e = (exn_class e \<noteq> SystemExit \<and> exn_class e \<noteq> KeyboardInterrupt)"

definition format_exc :: "py_exn \<Rightarrow> string" where
  "format_exc e = exn_tb e"

text \<open>\<^verbatim>\<open>s.split(sep)\<close> for a separator of one character.\<close>

fun py_split :: "char \<Rightarrow> string \<Rightarrow> string list" where
  "py_split sep [] = [[]]"
| "py_split sep (c # cs) =
     (if c = sep then [] # py_split sep cs
      else (case py_split sep cs of [] \<Rightarrow> [[c]] | p # ps \<Rightarrow> (c # p) # ps))"

text \<open>Hyperparameter values, and \<^verbatim>\<open>a + b\<close> for a stored value and an \<^verbatim>\<open>int\<close>.\<close>

type_synonym path = "string list"

datatype pvalue = IntV int | StrV string | PathV path

type_synonym params = "(string \<times> pvalue) list"

definition py_add :: "pvalue \<Rightarrow> int \<Rightarrow> py_exn + pvalue" where
  "py_add a b = (case a of IntV n \<Rightarrow> Inr (IntV (n + b))
                 | _ \<Rightarrow> Inl (Exn TypeError ''unsupported operand type(s) for +'' []))"

section \<open>The file system\<close>

text \<open>
  A path is its list of components, \<^verbatim>\<open>os.path.join(p, name)\<close> is \<open>p @ [name]\<close>. The file
  system is an association list from paths to nodes, in directory-listing order; the root
  \<open>[]\<close> is a directory. It holds regular files and directories only (no links, no
  special files, no permissions). The functions of \<^verbatim>\<open>os\<close> and \<^verbatim>\<open>shutil\<close> follow their
  library documentation.
\<close>

datatype node = File string | Dir

type_synonym filesystem = "(path \<times> node) list"

definition isdir :: "filesystem \<Rightarrow> path \<Rightarrow> bool" where
  "isdir fs p = (p = [] \<or> map_of fs p = Some Dir)"

definition os_mkdir :: "filesystem \<Rightarrow> path \<Rightarrow> py_exn + filesystem" where
  "os_mkdir fs p =
     (if p = [] \<or> map_of fs p \<noteq> None then Inl (Exn FileExistsError ''File exists'' [])
      else if \<not> isdir fs (butlast p) then
        (if map_of fs (butlast p) = None
         then Inl (Exn FileNotFoundError ''No such file or directory'' [])
         else Inl (Exn NotADirectoryError ''Not a directory'' []))
      else Inr (AList.update p Dir fs))"

definition os_listdir :: "filesystem \<Rightarrow> path \<Rightarrow> py_exn + string list" where
  "os_listdir fs p =
     (if isdir fs p then Inr (map last (filter (\<lambda>q. q \<noteq> [] \<and> butlast q = p) (map fst fs)))
      else if map_of fs p = None
        then Inl (Exn FileNotFoundError ''No such file or directory'' [])
      else Inl (Exn NotADirectoryError ''Not a directory'' []))"

text \<open>
  \<^verbatim>\<open>shutil.copy2(s, d)\<close>: when \<open>d\<close> is a directory the copy goes to \<open>d/basename(s)\<close>; the
  file is opened for reading, then the target for writing, which replaces its contents.
\<close>

definition copy_target :: "filesystem \<Rightarrow> path \<Rightarrow> path \<Rightarrow> path" where
  "copy_target fs s d = (if isdir fs d then d @ [last s] else d)"

definition shutil_copy2 :: "filesystem \<Rightarrow> path \<Rightarrow> path \<Rightarrow> py_exn + filesystem" where
  "shutil_copy2 fs s d =
     (let d' = copy_target fs s d in
      if d' = s then Inl (Exn SameFileError ''are the same file'' [])
      else (case map_of fs s of
          None \<Rightarrow> Inl (Exn FileNotFoundError ''No such file or directory'' [])
        | Some Dir \<Rightarrow> Inl (Exn IsADirectoryError ''Is a directory'' [])
        | Some (File c) \<Rightarrow>
            if isdir fs d' then Inl (Exn IsADirectoryError ''Is a directory'' [])
            else if \<not> isdir fs (butlast d')
              then Inl (Exn FileNotFoundError ''No such file or directory'' [])
            else Inr (AList.update d' (File c) fs)))"

text \<open>\<^verbatim>\<open>open(p, 'a')\<close> followed by closing: creates an empty file when there is none.\<close>

definition open_append :: "filesystem \<Rightarrow> path \<Rightarrow> py_exn + filesystem" where
  "open_append fs p =
     (if isdir fs p then Inl (Exn IsADirectoryError ''Is a directory'' [])
      else if \<not> isdir fs (butlast p)
        then Inl (Exn FileNotFoundError ''No such file or directory'' [])
      else (case map_of fs p of None \<Rightarrow> Inr (AList.update p (File []) fs)
            | Some _ \<Rightarrow> Inr fs))"

section \<open>Checkpoints (experiment_utils.py)\<close>

text \<open>
  \<^verbatim>\<open>copy_files\<close>: the listing is taken once; the loop stops at the first exception and
  keeps what it has copied so far, so the file system is returned in both cases.
\<close>

fun copy_files_loop :: "path \<Rightarrow> path \<Rightarrow> string list \<Rightarrow> filesystem \<Rightarrow> py_exn option \<times> filesystem" where
  "copy_files_loop src dst [] fs = (None, fs)"
| "copy_files_loop src dst (item # items) fs =
     (let s = src @ [item]; d = dst @ [item] in
      if \<not> isdir fs s then
        (case shutil_copy2 fs s d of
           Inl e \<Rightarrow> (Some e, fs)
         | Inr fs' \<Rightarrow> copy_files_loop src dst items fs')
      else copy_files_loop src dst items fs)"

definition copy_files :: "path \<Rightarrow> path \<Rightarrow> filesystem \<Rightarrow> py_exn option \<times> filesystem" where
  "copy_files src dst fs =
     (case os_listdir fs src of
        Inl e \<Rightarrow> (Some e, fs)
      | Inr items \<Rightarrow> copy_files_loop src dst items fs)"

definition save_experiment_checkpoint :: "path \<Rightarrow> filesystem \<Rightarrow> py_exn option \<times> filesystem" where
  "save_experiment_checkpoint log_dir fs =
     (let checkpoint_dir = log_dir @ [''checkpoint''] in
      if \<not> isdir fs checkpoint_dir then
        (case os_mkdir fs checkpoint_dir of
           Inl e \<Rightarrow> (Some e, fs)
         | Inr fs' \<Rightarrow> copy_files log_dir checkpoint_dir fs')
      else copy_files log_dir checkpoint_dir fs)"

section \<open>The store, the client pool and the transport\<close>

text \<open>
  The rows of the two tables. The source reads the columns as attributes
  (\<^verbatim>\<open>experiment.id\<close>, \<^verbatim>\<open>Experiments.status\<close>, \<^verbatim>\<open>ClientPool.current_experiment\<close>); the
  fields carry a prefix here because the same words are parameter names of the functions.
  Identifiers are the texts \<^verbatim>\<open>str()\<close> gives for them.
\<close>

datatype ExperimentStatus = PENDING | RUNNING | COMPLETED | FAILED

datatype ClientStatus = AVALIABLE | RESERVED

record Experiments =
  e_id :: string
  e_group_id :: string
  e_model :: string
  e_env_id :: string
  e_owner :: string
  e_total_timesteps :: pvalue
  e_log_dir :: path
  e_model_params :: params
  e_status :: ExperimentStatus
  e_pid :: "nat option"
  e_end_date :: "nat option"

record ClientPool =
  c_address :: string
  c_status :: ClientStatus
  c_current_experiment :: "string option"

text \<open>The \<^verbatim>\<open>fields\<close> dictionary of \<^verbatim>\<open>update_experiment\<close>, one entry per column written.\<close>

datatype experiment_field =
    Set_status ExperimentStatus
  | Set_end_date nat
  | Set_total_timesteps pvalue
  | Set_model_params params
  | Set_owner string
  | Set_pid nat

fun set_field :: "experiment_field \<Rightarrow> Experiments \<Rightarrow> Experiments" where
  "set_field (Set_status s) e = e\<lparr>e_status := s\<rparr>"
| "set_field (Set_end_date t) e = e\<lparr>e_end_date := Some t\<rparr>"
| "set_field (Set_total_timesteps n) e = e\<lparr>e_total_timesteps := n\<rparr>"
| "set_field (Set_model_params p) e = e\<lparr>e_model_params := p\<rparr>"
| "set_field (Set_owner u) e = e\<lparr>e_owner := u\<rparr>"
| "set_field (Set_pid n) e = e\<lparr>e_pid := Some n\<rparr>"

text \<open>
  The two registered trainers, the arguments a trainer is called with, and the arguments
  of a started worker process (\<^verbatim>\<open>Process(target=train_model, args=...)\<close>).
\<close>

datatype trainer = train_a2c | train_dqn

record runner_call =
  r_log_dir :: path
  r_env_id :: string
  r_client_pool :: "(string \<times> int) list"
  r_ignore_steps :: int
  r_params :: params

type_synonym model_runner = "runner_call \<Rightarrow> filesystem \<Rightarrow> py_exn option \<times> filesystem"

record process =
  p_experiment :: Experiments
  p_log_dir :: path
  p_runner :: trainer
  p_env_id :: string
  p_params :: params

text \<open>
  The world the functions act on: the two tables, the users, the file system, the clock,
  the processes started so far, and a trace of the calls made to the store, the transport,
  the monitor and the trainer, in the order they were made.
\<close>

datatype event =
    Created Experiments
  | Updated string "experiment_field list"
  | Reserved string string
  | ClientUpdated string ClientStatus "string option"
  | Sent string string
  | MonitorStart | MonitorStop | MonitorJoin
  | Called runner_call
  | Checkpointed path
  | Started process

record world =
  experiments :: "Experiments list"
  clients :: "ClientPool list"
  users :: "(string \<times> string) list"
  files :: filesystem
  clock :: nat
  uuids_drawn :: nat
  processes :: "process list"
  trace :: "event list"

text \<open>
  What the program takes from outside: the values \<^verbatim>\<open>uuid.uuid4()\<close> returns, the directory
  of the module file, whether the n-th \<^verbatim>\<open>Process.start()\<close> raises or which pid it gives,
  and what each trainer does when called (it returns or raises, and may write files).
\<close>

record externals =
  uuid4 :: "nat \<Rightarrow> string"
  module_dir :: path
  process_start :: "nat \<Rightarrow> py_exn + nat"
  trainers :: "trainer \<Rightarrow> model_runner"

definition emit :: "event \<Rightarrow> world \<Rightarrow> world" where
  "emit ev w = w\<lparr>trace := trace w @ [ev]\<rparr>"

definition time_sleep :: "nat \<Rightarrow> world \<Rightarrow> world" where
  "time_sleep n w = w\<lparr>clock := clock w + n\<rparr>"

definition draw_uuid :: "externals \<Rightarrow> world \<Rightarrow> string \<times> world" where
  "draw_uuid ext w = (uuid4 ext (uuids_drawn w), w\<lparr>uuids_drawn := Suc (uuids_drawn w)\<rparr>)"

text \<open>
  Modelled from the spec: \<^verbatim>\<open>create_experiment\<close> of \<^verbatim>\<open>rosalind.db.queries\<close>, which is not
  among the sources. It persists a new record in PENDING and fails with DuplicateKey when
  the id exists.
\<close>

definition create_experiment ::
  "string \<Rightarrow> string \<Rightarrow> string \<Rightarrow> string \<Rightarrow> string \<Rightarrow> pvalue \<Rightarrow> path \<Rightarrow> params \<Rightarrow> world
     \<Rightarrow> (py_exn + unit) \<times> world" where
  "create_experiment experiment_id group_id model env_id owner total_timesteps log_dir
      model_params w =
     (if experiment_id \<in> set (map e_id (experiments w))
      then (Inl (Exn DuplicateKey experiment_id []), w)
      else
        (let row = \<lparr>e_id = experiment_id, e_group_id = group_id, e_model = model,
                     e_env_id = env_id, e_owner = owner, e_total_timesteps = total_timesteps,
                     e_log_dir = log_dir, e_model_params = model_params, e_status = PENDING,
                     e_pid = None, e_end_date = None\<rparr>
         in (Inr (), emit (Created row) (w\<lparr>experiments := experiments w @ [row]\<rparr>))))"

text \<open>
  Modelled from the spec: \<^verbatim>\<open>get_experiment\<close> of \<^verbatim>\<open>rosalind.db.queries\<close>, a read accessor
  that fails with NotFound.
\<close>

definition get_experiment :: "string \<Rightarrow> world \<Rightarrow> py_exn + Experiments" where
  "get_experiment experiment_id w =
     (case find (\<lambda>e. e_id e = experiment_id) (experiments w) of
        None \<Rightarrow> Inl (Exn NotFound experiment_id [])
      | Some e \<Rightarrow> Inr e)"

text \<open>
  Modelled from the spec: \<^verbatim>\<open>update_experiment\<close> of \<^verbatim>\<open>rosalind.db.queries\<close>, a partial
  update of the record with that id that fails with NotFound when the id is absent.
\<close>

definition update_experiment ::
  "string \<Rightarrow> experiment_field list \<Rightarrow> world \<Rightarrow> (py_exn + unit) \<times> world" where
  "update_experiment experiment_id field_list w =
     (if experiment_id \<in> set (map e_id (experiments w))
      then (Inr (), emit (Updated experiment_id field_list)
              (w\<lparr>experiments :=
                   map (\<lambda>e. if e_id e = experiment_id then fold set_field field_list e else e)
                     (experiments w)\<rparr>))
      else (Inl (Exn NotFound experiment_id []), w))"

text \<open>
  Modelled from the spec: \<^verbatim>\<open>get_experiments_by_group_id\<close> of \<^verbatim>\<open>rosalind.db.queries\<close>, all
  experiments sharing the group id, in insertion order.
\<close>

definition get_experiments_by_group_id :: "string \<Rightarrow> world \<Rightarrow> Experiments list" where
  "get_experiments_by_group_id group_id w =
     filter (\<lambda>e. e_group_id e = group_id) (experiments w)"

text \<open>
  Modelled from the spec: \<^verbatim>\<open>find_and_reserve_client\<close> of \<^verbatim>\<open>rosalind.db.queries\<close>. It
  selects one AVAILABLE entry (the first), marks it RESERVED with the experiment as holder
  and returns its \<^verbatim>\<open>host:port\<close> address; it returns \<^verbatim>\<open>None\<close>, and never raises, when there
  is none.
\<close>

fun reserve_first :: "string \<Rightarrow> ClientPool list \<Rightarrow> ClientPool list" where
  "reserve_first experiment_id [] = []"
| "reserve_first experiment_id (c # cs) =
     (if c_status c = AVALIABLE
      then c\<lparr>c_status := RESERVED, c_current_experiment := Some experiment_id\<rparr> # cs
      else c # reserve_first experiment_id cs)"

definition find_and_reserve_client :: "string \<Rightarrow> world \<Rightarrow> string option \<times> world" where
  "find_and_reserve_client experiment_id w =
     (case find (\<lambda>c. c_status c = AVALIABLE) (clients w) of
        None \<Rightarrow> (None, w)
      | Some c \<Rightarrow>
          (Some (c_address c),
           emit (Reserved (c_address c) experiment_id)
             (w\<lparr>clients := reserve_first experiment_id (clients w)\<rparr>)))"

text \<open>
  Modelled from the spec: \<^verbatim>\<open>update_client\<close> of \<^verbatim>\<open>rosalind.db.queries\<close>, which writes the
  status and the holder of the entry with that address and fails with NotFound when there
  is no such entry.
\<close>

definition update_client ::
  "string \<Rightarrow> ClientStatus \<Rightarrow> string option \<Rightarrow> world \<Rightarrow> (py_exn + unit) \<times> world" where
  "update_client client_address st holder w =
     (if client_address \<in> set (map c_address (clients w))
      then (Inr (), emit (ClientUpdated client_address st holder)
              (w\<lparr>clients :=
                   map (\<lambda>c. if c_address c = client_address
                             then c\<lparr>c_status := st, c_current_experiment := holder\<rparr> else c)
                     (clients w)\<rparr>))
      else (Inl (Exn NotFound client_address []), w))"

text \<open>
  Modelled from the spec: \<^verbatim>\<open>get_user\<close> of \<^verbatim>\<open>rosalind.db.queries\<close>, which fails with
  NotFound; of the user only the chat id is read.
\<close>

definition get_user :: "string \<Rightarrow> world \<Rightarrow> py_exn + string" where
  "get_user user_id w =
     (case map_of (users w) user_id of
        None \<Rightarrow> Inl (Exn NotFound user_id [])
      | Some chat_id \<Rightarrow> Inr chat_id)"

text \<open>
  Modelled from the spec: the notification transport \<^verbatim>\<open>bot.send_message\<close> and the monitor's
  \<^verbatim>\<open>start\<close>, \<^verbatim>\<open>stop\<close> and \<^verbatim>\<open>join\<close>, external collaborators known by their contract only.
  Each call is recorded and returns.
\<close>

definition bot_send_message :: "string \<Rightarrow> string \<Rightarrow> world \<Rightarrow> world" where
  "bot_send_message chat_id text w = emit (Sent chat_id text) w"

definition monitor_start :: "world \<Rightarrow> world" where
  "monitor_start w = emit MonitorStart w"

definition monitor_stop :: "world \<Rightarrow> world" where
  "monitor_stop w = emit MonitorStop w"

definition monitor_join :: "world \<Rightarrow> world" where
  "monitor_join w = emit MonitorJoin w"

section \<open>Orchestration (experiment_utils.py)\<close>

definition MODELS :: "string \<Rightarrow> trainer option" where
  "MODELS = map_of [(''a2c'', train_a2c), (''deepq'', train_dqn)]"

definition build_log_dir :: "path \<Rightarrow> string \<Rightarrow> filesystem \<Rightarrow> (py_exn + path) \<times> filesystem" where
  "build_log_dir here experiment_id fs =
     (let base_log_dir = here @ [''logs''] in
      case (if \<not> isdir fs base_log_dir then os_mkdir fs base_log_dir else Inr fs) of
        Inl e \<Rightarrow> (Inl e, fs)
      | Inr fs1 \<Rightarrow>
          (let log_dir = base_log_dir @ [experiment_id] in
           case (if \<not> isdir fs1 log_dir then os_mkdir fs1 log_dir else Inr fs1) of
             Inl e \<Rightarrow> (Inl e, fs1)
           | Inr fs2 \<Rightarrow> (Inr log_dir, fs2)))"

definition send_message_to_owner ::
  "Experiments \<Rightarrow> string \<Rightarrow> world \<Rightarrow> (py_exn + unit) \<times> world" where
  "send_message_to_owner experiment message w =
     (case get_user (e_owner experiment) w of
        Inl e \<Rightarrow> (Inl e, w)
      | Inr chat_id \<Rightarrow> (Inr (), bot_send_message chat_id message w))"

definition failed_message :: "string \<Rightarrow> string \<Rightarrow> string" where
  "failed_message experiment_id tb_text =
     ''The experiment with id '' @ experiment_id @ '' failed!'' @ ''Traceback: ''
       @ [CHR 0x0A] @ '' '' @ tb_text"

definition completed_message :: "string \<Rightarrow> string" where
  "completed_message experiment_id =
     ''The experiment with id '' @ experiment_id @ '' completed!''"

subsection \<open>train_model\<close>

text \<open>
  The polling loop \<^verbatim>\<open>while not client_address\<close>: \<^verbatim>\<open>None\<close> and the empty string are false.
  It sleeps after every call, also after the one that succeeded. The store does not change
  between two polls unless this loop changes it, so the loop does not return when no entry
  is AVAILABLE: the value is \<open>None\<close>.
\<close>

partial_function (option) wait_for_client ::
  "string \<Rightarrow> string option \<Rightarrow> world \<Rightarrow> (string \<times> world) option" where
  "wait_for_client experiment_id client_address w =
     (case client_address of
        Some (c # cs) \<Rightarrow> Some (c # cs, w)
      | _ \<Rightarrow>
         (case find_and_reserve_client experiment_id w of
            (a, w1) \<Rightarrow> wait_for_client experiment_id a (time_sleep 10 w1)))"

declare wait_for_client.simps [code]

text \<open>
  \<^verbatim>\<open>client = (client_pool[0], int(client_pool[1]))\<close> indexes the list of pairs collected so
  far, not the parts of the address: with fewer than two pairs an index is out of range,
  and with two or more \<^verbatim>\<open>int\<close> is applied to a pair. No case returns a value.
\<close>

definition client_from_pool :: "(string \<times> int) list \<Rightarrow> py_exn + (string \<times> int)" where
  "client_from_pool client_pool =
     (case client_pool of
        [] \<Rightarrow> Inl (Exn IndexError ''list index out of range'' [])
      | [x] \<Rightarrow> Inl (Exn IndexError ''list index out of range'' [])
      | x # y # _ \<Rightarrow> Inl (Exn TypeError ''int() argument must be a string, a bytes-like object or a real number'' []))"

text \<open>
  The loop \<^verbatim>\<open>for i in range(num_envs)\<close>, with the list collected so far and the variable
  \<^verbatim>\<open>client_address\<close> as it is after the loop (unbound, \<open>None\<close>, when the loop never ran).
\<close>

fun reserve_clients ::
  "string \<Rightarrow> nat \<Rightarrow> (string \<times> int) list \<Rightarrow> string option \<Rightarrow> world
     \<Rightarrow> ((py_exn + ((string \<times> int) list \<times> string option)) \<times> world) option" where
  "reserve_clients experiment_id 0 client_pool client_address w =
     Some (Inr (client_pool, client_address), w)"
| "reserve_clients experiment_id (Suc n) client_pool client_address w =
     (case wait_for_client experiment_id None w of
        None \<Rightarrow> None
      | Some (a, w1) \<Rightarrow>
          (let client = py_split CHR '':'' a in
           case client_from_pool client_pool of
             Inl e \<Rightarrow> Some (Inl e, w1)
           | Inr client' \<Rightarrow>
               reserve_clients experiment_id n (client_pool @ [client']) (Some a) w1))"

text \<open>The body of the \<^verbatim>\<open>try\<close> block; the result is the exception it raised, if any.\<close>

definition train_model_try ::
  "Experiments \<Rightarrow> path \<Rightarrow> model_runner \<Rightarrow> string \<Rightarrow> params \<Rightarrow> (string \<times> int) list \<Rightarrow> world
     \<Rightarrow> py_exn option \<times> world" where
  "train_model_try experiment log_dir model_runner env_id model_params client_pool w =
     (case update_experiment (e_id experiment) [Set_status RUNNING] w of
        (Inl e, w1) \<Rightarrow> (Some e, w1)
      | (Inr _, w1) \<Rightarrow>
          (let w2 = monitor_start w1;
               call = \<lparr>r_log_dir = log_dir, r_env_id = env_id, r_client_pool = client_pool,
                        r_ignore_steps = 10, r_params = model_params\<rparr>;
               w3 = emit (Called call) w2
           in case model_runner call (files w3) of
                (r, files') \<Rightarrow> (r, w3\<lparr>files := files'\<rparr>)))"

text \<open>The handler \<^verbatim>\<open>except Exception as e\<close>: it ends by raising \<open>e\<close> again.\<close>

definition train_model_except :: "Experiments \<Rightarrow> py_exn \<Rightarrow> world \<Rightarrow> py_exn option \<times> world" where
  "train_model_except experiment e w =
     (let w1 = monitor_join (monitor_stop w) in
      case update_experiment (e_id experiment)
             [Set_status FAILED, Set_end_date (clock w1)] w1 of
        (Inl e2, w2) \<Rightarrow> (Some e2, w2)
      | (Inr _, w2) \<Rightarrow>
          (let tb_text = format_exc e in
           case send_message_to_owner experiment
                  (failed_message (e_id experiment) tb_text) w2 of
             (Inl e3, w3) \<Rightarrow> (Some e3, w3)
           | (Inr _, w3) \<Rightarrow> (Some e, w3)))"

text \<open>The \<^verbatim>\<open>else\<close> branch, run when the body raised nothing.\<close>

definition train_model_else :: "Experiments \<Rightarrow> world \<Rightarrow> py_exn option \<times> world" where
  "train_model_else experiment w =
     (case update_experiment (e_id experiment)
             [Set_status COMPLETED, Set_end_date (clock w)] w of
        (Inl e, w1) \<Rightarrow> (Some e, w1)
      | (Inr _, w1) \<Rightarrow>
          (case send_message_to_owner experiment (completed_message (e_id experiment)) w1 of
             (Inl e, w2) \<Rightarrow> (Some e, w2)
           | (Inr _, w2) \<Rightarrow> (None, w2)))"

text \<open>
  The \<^verbatim>\<open>finally\<close> block. It releases the one address the variable \<^verbatim>\<open>client_address\<close>
  holds; reading the variable raises when the loop never assigned it.
\<close>

definition train_model_finally :: "string option \<Rightarrow> world \<Rightarrow> py_exn option \<times> world" where
  "train_model_finally client_address w =
     (let w1 = monitor_join (monitor_stop w) in
      case client_address of
        None \<Rightarrow>
          (Some (Exn UnboundLocalError ''local variable client_address referenced before assignment'' []), w1)
      | Some a \<Rightarrow>
          (case update_client a AVALIABLE None w1 of
             (Inl e, w2) \<Rightarrow> (Some e, w2)
           | (Inr _, w2) \<Rightarrow> (None, w2)))"

text \<open>
  The \<^verbatim>\<open>try\<close> statement as a whole: an exception of the \<^verbatim>\<open>finally\<close> block replaces the
  one that was on its way out.
\<close>

definition train_model_supervise ::
  "Experiments \<Rightarrow> path \<Rightarrow> model_runner \<Rightarrow> string \<Rightarrow> params \<Rightarrow> (string \<times> int) list
     \<Rightarrow> string option \<Rightarrow> world \<Rightarrow> (py_exn + unit) \<times> world" where
  "train_model_supervise experiment log_dir model_runner env_id model_params client_pool
      client_address w =
     (case train_model_try experiment log_dir model_runner env_id model_params client_pool w of
        (r, w1) \<Rightarrow>
          (case (case r of
                   Some e \<Rightarrow> if is_Exception e then train_model_except experiment e w1
                             else (Some e, w1)
                 | None \<Rightarrow> train_model_else experiment w1) of
             (r', w2) \<Rightarrow>
               (case train_model_finally client_address w2 of
                  (Some ef, w3) \<Rightarrow> (Inl ef, w3)
                | (None, w3) \<Rightarrow>
                    (case r' of Some e \<Rightarrow> (Inl e, w3) | None \<Rightarrow> (Inr (), w3)))))"

text \<open>
  \<^verbatim>\<open>train_model\<close>: the log file handler opens \<^verbatim>\<open>train.log\<close>, the clients are reserved, and
  the \<^verbatim>\<open>try\<close> statement runs. The value is \<open>None\<close> when the reservation never returns.
\<close>

definition train_model ::
  "Experiments \<Rightarrow> path \<Rightarrow> model_runner \<Rightarrow> string \<Rightarrow> params \<Rightarrow> int \<Rightarrow> world
     \<Rightarrow> ((py_exn + unit) \<times> world) option" where
  "train_model experiment log_dir model_runner env_id model_params num_envs w =
     (case open_append (files w) (log_dir @ [''train.log'']) of
        Inl e \<Rightarrow> Some (Inl e, w)
      | Inr files' \<Rightarrow>
          (case reserve_clients (e_id experiment) (nat num_envs) [] None
                  (w\<lparr>files := files'\<rparr>) of
             None \<Rightarrow> None
           | Some (Inl e, w1) \<Rightarrow> Some (Inl e, w1)
           | Some (Inr (client_pool, client_address), w1) \<Rightarrow>
               Some (train_model_supervise experiment log_dir model_runner env_id model_params
                       client_pool client_address w1)))"

text \<open>What a started worker process runs: \<^verbatim>\<open>train_model\<close> with the default \<^verbatim>\<open>num_envs=1\<close>.\<close>

definition run_worker :: "externals \<Rightarrow> process \<Rightarrow> world \<Rightarrow> ((py_exn + unit) \<times> world) option" where
  "run_worker ext p w =
     train_model (p_experiment p) (p_log_dir p) (trainers ext (p_runner p)) (p_env_id p)
       (p_params p) 1 w"

subsection \<open>Starting and resuming experiments\<close>

text \<open>
  \<^verbatim>\<open>Process(target=train_model, args=...)\<close> followed by \<^verbatim>\<open>start()\<close>: it raises, or the
  process is recorded as started and its pid is known.
\<close>

definition start_process :: "externals \<Rightarrow> process \<Rightarrow> world \<Rightarrow> (py_exn + nat) \<times> world" where
  "start_process ext p w =
     (case process_start ext (length (processes w)) of
        Inl e \<Rightarrow> (Inl e, w)
      | Inr n \<Rightarrow> (Inr n, emit (Started p) (w\<lparr>processes := processes w @ [p]\<rparr>)))"

text \<open>
  The \<^verbatim>\<open>try\<close> statement around the start of the process, shared in shape by the two
  functions below: on an \<^verbatim>\<open>Exception\<close> the owner is told and the exception is raised again.
\<close>

definition launch :: "externals \<Rightarrow> Experiments \<Rightarrow> process \<Rightarrow> world \<Rightarrow> (py_exn + nat) \<times> world" where
  "launch ext experiment p w =
     (case start_process ext p w of
        (Inr n, w1) \<Rightarrow> (Inr n, w1)
      | (Inl e, w1) \<Rightarrow>
          if is_Exception e then
            (let tb_text = format_exc e in
             case send_message_to_owner experiment
                    (failed_message (e_id experiment) tb_text) w1 of
               (Inl e2, w2) \<Rightarrow> (Inl e2, w2)
             | (Inr _, w2) \<Rightarrow> (Inl e, w2))
          else (Inl e, w1))"

text \<open>
  \<^verbatim>\<open>run_new_single_experiment_with_monitoring\<close>. \<^verbatim>\<open>user\<close> is the owner's id; \<^verbatim>\<open>group_id\<close> is
  \<^verbatim>\<open>None\<close> by default, and an empty one counts as none.
\<close>

definition run_new_single_experiment_with_monitoring ::
  "externals \<Rightarrow> string \<Rightarrow> string \<Rightarrow> string \<Rightarrow> params \<Rightarrow> string option \<Rightarrow> world
     \<Rightarrow> (py_exn + Experiments) \<times> world" where
  "run_new_single_experiment_with_monitoring ext user model env_id model_params group_id w =
     (case MODELS model of
        None \<Rightarrow>
          (Inl (Exn KeyError (''The model '' @ model @ '' has not been implemented.'') []), w)
      | Some model_runner \<Rightarrow>
          (case draw_uuid ext w of
             (experiment_id, w1) \<Rightarrow>
          (case (case group_id of
                   Some (c # cs) \<Rightarrow> (c # cs, w1)
                 | _ \<Rightarrow> draw_uuid ext w1) of
             (group_id', w2) \<Rightarrow>
          (case build_log_dir (module_dir ext) experiment_id (files w2) of
             (Inl e, files') \<Rightarrow> (Inl e, w2\<lparr>files := files'\<rparr>)
           | (Inr log_dir, files') \<Rightarrow>
          (let w3 = w2\<lparr>files := files'\<rparr> in
           case map_of model_params ''total_timesteps'' of
             None \<Rightarrow> (Inl (Exn KeyError ''total_timesteps'' []), w3)
           | Some total_timesteps \<Rightarrow>
          (case create_experiment experiment_id group_id' model env_id user total_timesteps
                  log_dir model_params w3 of
             (Inl e, w4) \<Rightarrow> (Inl e, w4)
           | (Inr _, w4) \<Rightarrow>
          (case get_experiment experiment_id w4 of
             Inl e \<Rightarrow> (Inl e, w4)
           | Inr experiment \<Rightarrow>
          (case launch ext experiment
                  \<lparr>p_experiment = experiment, p_log_dir = log_dir, p_runner = model_runner,
                   p_env_id = env_id, p_params = model_params\<rparr> w4 of
             (Inl e, w5) \<Rightarrow> (Inl e, w5)
           | (Inr n, w5) \<Rightarrow>
          (case update_experiment (e_id experiment) [Set_pid n] w5 of
             (Inl e, w6) \<Rightarrow> (Inl e, w6)
           | (Inr _, w6) \<Rightarrow> (Inr experiment, w6))))))))))"

text \<open>
  \<^verbatim>\<open>continue_experiement_with_monitoring\<close>. \<^verbatim>\<open>experiment\<close> is the object the caller holds;
  its parameter dictionary is written in place, so the object returned and the one handed
  to the worker carry the new entries. \<^verbatim>\<open>user\<close> is the id the source reads as \<^verbatim>\<open>user.id\<close>.
\<close>

definition continue_experiement_with_monitoring ::
  "externals \<Rightarrow> string \<Rightarrow> Experiments \<Rightarrow> int \<Rightarrow> world \<Rightarrow> (py_exn + Experiments) \<times> world" where
  "continue_experiement_with_monitoring ext user experiment total_timesteps w =
     (case MODELS (e_model experiment) of
        None \<Rightarrow>
          (Inl (Exn KeyError
                 (''The model '' @ e_model experiment @ '' has not been implemented.'') []), w)
      | Some model_runner \<Rightarrow>
          (case build_log_dir (module_dir ext) (e_id experiment) (files w) of
             (Inl e, files1) \<Rightarrow> (Inl e, w\<lparr>files := files1\<rparr>)
           | (Inr log_dir, files1) \<Rightarrow>
          (case save_experiment_checkpoint log_dir files1 of
             (Some e, files2) \<Rightarrow> (Inl e, w\<lparr>files := files2\<rparr>)
           | (None, files2) \<Rightarrow>
          (let w1 = emit (Checkpointed log_dir) (w\<lparr>files := files2\<rparr>);
               model_params =
                 AList.update ''total_timesteps'' (IntV total_timesteps)
                   (AList.update ''load_path'' (PathV (log_dir @ [''model.pkl'']))
                      (e_model_params experiment));
               experiment' = experiment\<lparr>e_model_params := model_params\<rparr>
           in
           case py_add (e_total_timesteps experiment) total_timesteps of
             Inl e \<Rightarrow> (Inl e, w1)
           | Inr new_total \<Rightarrow>
          (case update_experiment (e_id experiment)
                  [Set_total_timesteps new_total, Set_status PENDING,
                   Set_model_params model_params, Set_owner user] w1 of
             (Inl e, w2) \<Rightarrow> (Inl e, w2)
           | (Inr _, w2) \<Rightarrow>
          (case launch ext experiment'
                  \<lparr>p_experiment = experiment', p_log_dir = log_dir, p_runner = model_runner,
                   p_env_id = e_env_id experiment, p_params = model_params\<rparr> w2 of
             (Inl e, w3) \<Rightarrow> (Inl e, w3)
           | (Inr n, w3) \<Rightarrow>
          (case update_experiment (e_id experiment) [Set_pid n] w3 of
             (Inl e, w4) \<Rightarrow> (Inl e, w4)
           | (Inr _, w4) \<Rightarrow> (Inr experiment', w4))))))))"

text \<open>
  \<^verbatim>\<open>continue_experiment_group\<close>: the loop has no handler, so the first exception leaves it.
\<close>

fun continue_experiments ::
  "externals \<Rightarrow> string \<Rightarrow> int \<Rightarrow> Experiments list \<Rightarrow> world \<Rightarrow> (py_exn + unit) \<times> world" where
  "continue_experiments ext user total_timesteps [] w = (Inr (), w)"
| "continue_experiments ext user total_timesteps (experiment # rest) w =
     (case continue_experiement_with_monitoring ext user experiment total_timesteps w of
        (Inl e, w1) \<Rightarrow> (Inl e, w1)
      | (Inr _, w1) \<Rightarrow> continue_experiments ext user total_timesteps rest w1)"

definition continue_experiment_group ::
  "externals \<Rightarrow> string \<Rightarrow> string \<Rightarrow> int \<Rightarrow> world \<Rightarrow> (py_exn + unit) \<times> world" where
  "continue_experiment_group ext user group_id total_timesteps w =
     continue_experiments ext user total_timesteps (get_experiments_by_group_id group_id w) w"

text \<open>
  The status values written for one experiment, read off the trace in the order of the
  writes, and what the specification allows such a sequence to be: cycles of PENDING,
  RUNNING and then COMPLETED or FAILED, of which the last may still be under way.
\<close>

fun field_status :: "experiment_field \<Rightarrow> ExperimentStatus list" where
  "field_status (Set_status s) = [s]"
| "field_status _ = []"

fun event_statuses :: "string \<Rightarrow> event \<Rightarrow> ExperimentStatus list" where
  "event_statuses i (Created e) = (if e_id e = i then [e_status e] else [])"
| "event_statuses i (Updated j field_list) =
     (if j = i then concat (map field_status field_list) else [])"
| "event_statuses i _ = []"

definition statuses_written :: "string \<Rightarrow> event list \<Rightarrow> ExperimentStatus list" where
  "statuses_written i evs = concat (map (event_statuses i) evs)"

fun lifecycle :: "ExperimentStatus list \<Rightarrow> bool" where
  "lifecycle [] = True"
| "lifecycle [PENDING] = True"
| "lifecycle [PENDING, RUNNING] = True"
| "lifecycle (PENDING # RUNNING # COMPLETED # rest) = lifecycle rest"
| "lifecycle (PENDING # RUNNING # FAILED # rest) = lifecycle rest"
| "lifecycle _ = False"

text \<open>The messages sent, read off the trace.\<close>

fun event_message :: "event \<Rightarrow> (string \<times> string) list" where
  "event_message (Sent chat_id text) = [(chat_id, text)]"
| "event_message _ = []"

definition messages_sent :: "event list \<Rightarrow> (string \<times> string) list" where
  "messages_sent evs = concat (map event_message evs)"

section \<open>The Malmo environment (malmo_env.py)\<close>

text \<open>
  The agent host is an external collaborator. What it shows is taken from outside: the
  world state of its n-th query (\<^verbatim>\<open>peekWorldState\<close> or \<^verbatim>\<open>getWorldState\<close>) and whether its
  n-th \<^verbatim>\<open>startMission\<close> raises. What the environment does to it is logged in order:
  missions started, commands sent, and the waits of \<^verbatim>\<open>time.sleep\<close> between them.
\<close>

record frame =
  f_pixels :: "nat list"
  f_height :: nat
  f_width :: nat
  f_channels :: nat

record world_state =
  is_mission_running :: bool
  has_mission_begun :: bool
  ws_errors :: "string list"
  mission_control_messages :: "string list"
  rewards :: "real list"
  observations :: "string list"
  video_frames :: "frame list"
  number_of_video_frames_since_last_state :: nat
  number_of_rewards_since_last_state :: nat
  number_of_observations_since_last_state :: nat

datatype host_event = StartMission bool | Command string | Slept real

record agent_host =
  h_states :: "nat \<Rightarrow> world_state"
  h_queries :: nat
  h_start_results :: "nat \<Rightarrow> py_exn option"
  h_starts :: nat
  h_log :: "host_event list"

definition peekWorldState :: "agent_host \<Rightarrow> world_state \<times> agent_host" where
  "peekWorldState h = (h_states h (h_queries h), h\<lparr>h_queries := Suc (h_queries h)\<rparr>)"

definition getWorldState :: "agent_host \<Rightarrow> world_state \<times> agent_host" where
  "getWorldState h = (h_states h (h_queries h), h\<lparr>h_queries := Suc (h_queries h)\<rparr>)"

definition sendCommand :: "string \<Rightarrow> agent_host \<Rightarrow> agent_host" where
  "sendCommand command h = h\<lparr>h_log := h_log h @ [Command command]\<rparr>"


text \<open>\<^verbatim>\<open>time.sleep\<close> raises for a negative length.\<close>

definition sleep :: "real \<Rightarrow> agent_host \<Rightarrow> py_exn option \<times> agent_host" where
  "sleep secs h =
     (if secs < 0 then (Some (Exn ValueError ''sleep length must be non-negative'' []), h)
      else (None, h\<lparr>h_log := h_log h @ [Slept secs]\<rparr>))"


text \<open>
  Arrays: an array has a shape, of any number of dimensions, and its bytes.
  \<^verbatim>\<open>np.frombuffer\<close> followed by \<^verbatim>\<open>reshape\<close> raises when the size does not fit; \<^verbatim>\<open>np.zeros\<close>
  takes any shape; \<^verbatim>\<open>np.vstack\<close> reads an array of fewer than two dimensions as one row,
  and raises for no array and for arrays whose dimensions after the first differ.
\<close>

record ndarray =
  a_shape :: "nat list"
  a_data :: "nat list"

definition frame_image :: "frame \<Rightarrow> py_exn + ndarray" where
  "frame_image fr =
     (if length (f_pixels fr) = f_height fr * f_width fr * f_channels fr
      then Inr \<lparr>a_shape = [f_height fr, f_width fr, f_channels fr], a_data = f_pixels fr\<rparr>
      else Inl (Exn ValueError ''cannot reshape array'' []))"

definition np_zeros :: "nat list \<Rightarrow> ndarray" where
  "np_zeros shape = \<lparr>a_shape = shape, a_data = replicate (prod_list shape) 0\<rparr>"

definition atleast_2d :: "ndarray \<Rightarrow> ndarray" where
  "atleast_2d a =
     (case a_shape a of
        [] \<Rightarrow> a\<lparr>a_shape := [1, 1]\<rparr>
      | [n] \<Rightarrow> a\<lparr>a_shape := [1, n]\<rparr>
      | _ \<Rightarrow> a)"

definition np_vstack :: "ndarray list \<Rightarrow> py_exn + ndarray" where
  "np_vstack arrays =
     (case map atleast_2d arrays of
        [] \<Rightarrow> Inl (Exn ValueError ''need at least one array to concatenate'' [])
      | x # xs \<Rightarrow>
          if list_all (\<lambda>y. tl (a_shape y) = tl (a_shape x)) xs
          then Inr \<lparr>a_shape = sum_list (map (\<lambda>y. hd (a_shape y)) (x # xs)) # tl (a_shape x),
                    a_data = concat (map a_data (x # xs))\<rparr>
          else Inl (Exn ValueError ''all the input array dimensions must match'' []))"

text \<open>
  Action spaces by their class, and action values: a number, or a sequence of values.
  Discrete actions are integers.
\<close>

datatype space = Discrete | Box | MultiDiscrete | OtherSpace

datatype act = Num int | Seq "act list"

text \<open>
  What the class takes from outside: the methods a subclass has to implement
  (\<^verbatim>\<open>_load_mission\<close>, which here gives whether the mission it returns is set to force a world
  reset, and \<^verbatim>\<open>_world_state_parser\<close>), and the library functions \<^verbatim>\<open>ET.fromstring\<close>,
  \<^verbatim>\<open>json.loads\<close> and \<^verbatim>\<open>str\<close> on action values.
\<close>

record malmo_externals =
  load_mission :: "py_exn + bool"
  world_state_parser :: "world_state \<Rightarrow> py_exn + (ndarray \<times> real)"
  et_fromstring :: "string \<Rightarrow> py_exn option"
  json_loads :: "string \<Rightarrow> py_exn + string"
  py_str :: "act \<Rightarrow> string"

text \<open>The attributes of the environment object that \<^verbatim>\<open>step\<close> and \<^verbatim>\<open>reset\<close> use.\<close>

record MalmoEnvironment =
  m_agent_host :: agent_host
  m_parse_world_state :: bool
  m_has_client_pool :: bool
  m_max_retries :: int
  m_retry_sleep :: real
  m_step_sleep :: real
  m_skip_steps :: int
  m_forceWorldReset :: bool
  m_mission_forces_reset :: bool
  m_num_actions :: int
  m_num_resets :: int
  m_replay_buffer_size :: int
  m_replay_buffer :: "ndarray list"
  m_observation_shape :: "nat list"
  m_last_image :: ndarray
  m_previous_observations :: "string option"
  m_action_spaces :: "space list"
  m_action_names :: "string list list"

text \<open>Python list indexing: a negative index counts from the end.\<close>

definition py_index :: "'a list \<Rightarrow> int \<Rightarrow> py_exn + 'a" where
  "py_index xs i =
     (if 0 \<le> i \<and> i < int (length xs) then Inr (xs ! nat i)
      else if i < 0 \<and> - int (length xs) \<le> i then Inr (xs ! nat (int (length xs) + i))
      else Inl (Exn IndexError ''list index out of range'' []))"

text \<open>\<^verbatim>\<open>_send_command\<close> and the inner loops of \<^verbatim>\<open>_take_action\<close> over \<^verbatim>\<open>zip(cmds, acts)\<close>.\<close>

definition send_command :: "string \<Rightarrow> agent_host \<Rightarrow> agent_host" where
  "send_command command h = sendCommand command h"

fun send_values :: "(act \<Rightarrow> string) \<Rightarrow> string list \<Rightarrow> act list \<Rightarrow> agent_host \<Rightarrow> agent_host" where
  "send_values to_str (cmd # cmds) (val # vals) h =
     send_values to_str cmds vals (send_command (cmd @ '' '' @ to_str val) h)"
| "send_values to_str _ _ h = h"

text \<open>The outer loop of \<^verbatim>\<open>_take_action\<close> over \<^verbatim>\<open>zip(action_spaces, action_names, actions)\<close>.\<close>

fun take_actions ::
  "(act \<Rightarrow> string) \<Rightarrow> space list \<Rightarrow> string list list \<Rightarrow> act list \<Rightarrow> agent_host
     \<Rightarrow> py_exn option \<times> agent_host" where
  "take_actions to_str (spc # spcs) (cmds # names) (acts # actions) h =
     (case spc of
        Discrete \<Rightarrow>
          (case acts of
             Num i \<Rightarrow>
               (case py_index cmds i of
                  Inl e \<Rightarrow> (Some e, h)
                | Inr cmd \<Rightarrow> take_actions to_str spcs names actions (send_command cmd h))
           | Seq _ \<Rightarrow> (Some (Exn TypeError ''list indices must be integers or slices'' []), h))
      | OtherSpace \<Rightarrow> take_actions to_str spcs names actions h
      | _ \<Rightarrow>
          (case acts of
             Num _ \<Rightarrow> (Some (Exn TypeError ''zip argument #2 must support iteration'' []), h)
           | Seq vals \<Rightarrow>
               take_actions to_str spcs names actions (send_values to_str cmds vals h)))"
| "take_actions to_str _ _ _ h = (None, h)"

definition take_action ::
  "malmo_externals \<Rightarrow> MalmoEnvironment \<Rightarrow> act \<Rightarrow> agent_host \<Rightarrow> py_exn option \<times> agent_host" where
  "take_action lib self actions h =
     (if length (m_action_spaces self) = 1
      then take_actions (py_str lib) (m_action_spaces self) (m_action_names self) [actions] h
      else (case actions of
              Num _ \<Rightarrow> (Some (Exn TypeError ''zip argument #3 must support iteration'' []), h)
            | Seq acts \<Rightarrow>
                take_actions (py_str lib) (m_action_spaces self) (m_action_names self) acts h))"

text \<open>
  \<^verbatim>\<open>_get_world_state\<close>: it polls until the host shows rewards and enough observations, or a
  mission that has ended, and then returns the result of one more query. The value is
  \<open>None\<close> when the host never shows such a state.
\<close>

partial_function (option) get_world_state ::
  "real \<Rightarrow> int \<Rightarrow> bool \<Rightarrow> agent_host \<Rightarrow> ((py_exn + world_state) \<times> agent_host) option" where
  "get_world_state step_sleep skip_steps ignore_rewards h =
     (case sleep step_sleep h of
        (Some e, h1) \<Rightarrow> Some (Inl e, h1)
      | (None, h1) \<Rightarrow>
          (case peekWorldState h1 of
             (world_state, h2) \<Rightarrow>
               if ((length (rewards world_state) > 0 \<or> ignore_rewards)
                   \<and> int (number_of_observations_since_last_state world_state) > skip_steps)
                  \<or> \<not> is_mission_running world_state
               then (case getWorldState h2 of (ws, h3) \<Rightarrow> Some (Inr ws, h3))
               else get_world_state step_sleep skip_steps ignore_rewards h2))"

declare get_world_state.simps [code]

definition get_video_frame ::
  "MalmoEnvironment \<Rightarrow> world_state \<Rightarrow> (py_exn + ndarray) \<times> MalmoEnvironment" where
  "get_video_frame self world_state =
     (if number_of_video_frames_since_last_state world_state > 0 then
        (if length (video_frames world_state) \<noteq> 1
         then (Inl (Exn AssertionError [] []), self)
         else (case frame_image (last (video_frames world_state)) of
                 Inl e \<Rightarrow> (Inl e, self)
               | Inr img \<Rightarrow> (Inr img, self\<lparr>m_last_image := img\<rparr>)))
      else (Inr (m_last_image self), self))"

definition get_observation ::
  "malmo_externals \<Rightarrow> MalmoEnvironment \<Rightarrow> world_state
     \<Rightarrow> (py_exn + string option) \<times> MalmoEnvironment" where
  "get_observation lib self world_state =
     (if number_of_observations_since_last_state world_state > 0
         \<and> is_mission_running world_state then
        (if length (observations world_state) \<noteq> 1
         then (Inl (Exn AssertionError [] []), self)
         else (case json_loads lib (last (observations world_state)) of
                 Inl e \<Rightarrow> (Inl e, self)
               | Inr obs \<Rightarrow> (Inr (Some obs), self\<lparr>m_previous_observations := Some obs\<rparr>)))
      else (Inr (m_previous_observations self), self))"

text \<open>
  \<^verbatim>\<open>_update_replay_buffer_and_get_observation\<close>: the buffer is changed before \<^verbatim>\<open>np.vstack\<close>
  can raise.
\<close>

definition update_replay_buffer_and_get_observation ::
  "MalmoEnvironment \<Rightarrow> ndarray \<Rightarrow> (py_exn + ndarray) \<times> MalmoEnvironment" where
  "update_replay_buffer_and_get_observation self observation =
     (let buffer = butlast (observation # m_replay_buffer self);
          self1 = self\<lparr>m_replay_buffer := buffer\<rparr>
      in case np_vstack buffer of
           Inl e \<Rightarrow> (Inl e, self1)
         | Inr obs \<Rightarrow> (Inr obs, self1))"

text \<open>The loop of \<^verbatim>\<open>step\<close> over the mission control messages, which parses each of them.\<close>

fun parse_messages :: "(string \<Rightarrow> py_exn option) \<Rightarrow> string list \<Rightarrow> py_exn option" where
  "parse_messages parse [] = None"
| "parse_messages parse (msg # msgs) =
     (case parse msg of Some e \<Rightarrow> Some e | None \<Rightarrow> parse_messages parse msgs)"

record step_info =
  info_has_mission_begun :: bool
  info_is_mission_running :: bool
  info_number_of_video_frames_since_last_state :: nat
  info_number_of_rewards_since_last_state :: nat
  info_number_of_observations_since_last_state :: nat
  info_mission_control_messages :: "string list"
  info_observation :: "string option"

type_synonym step_result = "ndarray \<times> real \<times> bool \<times> step_info"

text \<open>\<^verbatim>\<open>step\<close> from the logging of errors and control messages to its end.\<close>

definition step_report ::
  "malmo_externals \<Rightarrow> MalmoEnvironment \<Rightarrow> world_state
     \<Rightarrow> (py_exn + step_result) \<times> MalmoEnvironment" where
  "step_report lib self world_state =
     (case parse_messages (et_fromstring lib) (mission_control_messages world_state) of
        Some e \<Rightarrow> (Inl e, self)
      | None \<Rightarrow>
          (let done = (\<not> is_mission_running world_state) in
           case get_observation lib self world_state of
             (Inl e, self1) \<Rightarrow> (Inl e, self1)
           | (Inr observation, self1) \<Rightarrow>
               (let info = \<lparr>info_has_mission_begun = has_mission_begun world_state,
                      info_is_mission_running = is_mission_running world_state,
                      info_number_of_video_frames_since_last_state =
                        number_of_video_frames_since_last_state world_state,
                      info_number_of_rewards_since_last_state =
                        number_of_rewards_since_last_state world_state,
                      info_number_of_observations_since_last_state =
                        number_of_observations_since_last_state world_state,
                      info_mission_control_messages = mission_control_messages world_state,
                      info_observation = observation\<rparr>
                in if m_parse_world_state self1 then
                     (case world_state_parser lib world_state of
                        Inl e \<Rightarrow> (Inl e, self1)
                      | Inr (obs, reward) \<Rightarrow> (Inr (obs, reward, done, info), self1))
                   else
                     (let reward = sum_list (rewards world_state) in
                      case get_video_frame self1 world_state of
                        (Inl e, self2) \<Rightarrow> (Inl e, self2)
                      | (Inr obs_frame, self2) \<Rightarrow>
                          (case update_replay_buffer_and_get_observation self2 obs_frame of
                             (Inl e, self3) \<Rightarrow> (Inl e, self3)
                           | (Inr obs, self3) \<Rightarrow> (Inr (obs, reward, done, info), self3))))))"

text \<open>
  \<^verbatim>\<open>step\<close>: the action is taken only when the peeked world state says the mission is
  running. The value is \<open>None\<close> when waiting for the new state never ends.
\<close>

definition step ::
  "malmo_externals \<Rightarrow> act \<Rightarrow> MalmoEnvironment
     \<Rightarrow> ((py_exn + step_result) \<times> MalmoEnvironment) option" where
  "step lib action self =
     (case peekWorldState (m_agent_host self) of
        (world_state, h1) \<Rightarrow>
          if is_mission_running world_state then
            (case take_action lib self action h1 of
               (Some e, h2) \<Rightarrow> Some (Inl e, self\<lparr>m_agent_host := h2\<rparr>)
             | (None, h2) \<Rightarrow>
                 (let self1 = self\<lparr>m_agent_host := h2, m_num_actions := m_num_actions self + 1\<rparr>
                  in case get_world_state (m_step_sleep self1) (m_skip_steps self1) False h2 of
                       None \<Rightarrow> None
                     | Some (Inl e, h3) \<Rightarrow> Some (Inl e, self1\<lparr>m_agent_host := h3\<rparr>)
                     | Some (Inr world_state', h3) \<Rightarrow>
                         Some (step_report lib (self1\<lparr>m_agent_host := h3\<rparr>) world_state')))
          else Some (step_report lib (self\<lparr>m_agent_host := h1\<rparr>) world_state))"









section \<open>Example inputs\<close>

text \<open>
  One finished experiment of a registered model, its owner, one AVAILABLE client, and the
  log directory of the experiment. The trainers of \<open>ext0\<close> return at once, every process
  starts, and the n-th identifier drawn is \<open>uuid\<close> followed by n letters x.
\<close>

definition exp1 :: Experiments where
  "exp1 = \<lparr>e_id = ''e1'', e_group_id = ''g1'', e_model = ''a2c'', e_env_id = ''maze'',
            e_owner = ''u1'', e_total_timesteps = IntV 1000,
            e_log_dir = [''rosalind'', ''logs'', ''e1''],
            e_model_params = [(''total_timesteps'', IntV 1000)],
            e_status = COMPLETED, e_pid = Some 7, e_end_date = Some 5\<rparr>"

definition client1 :: ClientPool where
  "client1 = \<lparr>c_address = ''127.0.0.1:10000'', c_status = AVALIABLE,
               c_current_experiment = None\<rparr>"

definition world0 :: world where
  "world0 = \<lparr>experiments = [exp1], clients = [client1], users = [(''u1'', ''chat1'')],
              files = [([''rosalind''], Dir), ([''rosalind'', ''logs''], Dir),
                       ([''rosalind'', ''logs'', ''e1''], Dir),
                       ([''rosalind'', ''logs'', ''e1'', ''model.pkl''], File ''weights'')],
              clock = 0, uuids_drawn = 0, processes = [], trace = []\<rparr>"

definition returns_at_once :: model_runner where
  "returns_at_once call fs = (None, fs)"

definition ext0 :: externals where
  "ext0 = \<lparr>uuid4 = (\<lambda>n. ''uuid'' @ replicate n (CHR ''x'')), module_dir = [''rosalind''],
            process_start = (\<lambda>n. Inr (100 + n)), trainers = (\<lambda>t. returns_at_once)\<rparr>"

text \<open>
  A group of three experiments in retrieval order, the second of a model that is not
  registered.
\<close>

definition exp2 :: Experiments where
  "exp2 = exp1\<lparr>e_id := ''e2'', e_model := ''ppo'', e_log_dir := [''rosalind'', ''logs'', ''e2'']\<rparr>"

definition exp3 :: Experiments where
  "exp3 = exp1\<lparr>e_id := ''e3'', e_model := ''deepq'', e_log_dir := [''rosalind'', ''logs'', ''e3'']\<rparr>"

definition world_group :: world where
  "world_group = world0\<lparr>experiments := [exp1, exp2, exp3]\<rparr>"

text \<open>A trainer that raises, with the text of its traceback.\<close>

definition boom :: py_exn where
  "boom = Exn RuntimeError ''boom'' ''Traceback (most recent call last): RuntimeError: boom''"

definition raises_boom :: model_runner where
  "raises_boom call fs = (Some boom, fs)"

text \<open>
  A host whose mission has ended and whose first two attempts to start a mission raise
  RuntimeError, an environment on it that reads video frames, and library functions that
  accept every text.
\<close>

definition ws_over :: world_state where
  "ws_over = \<lparr>is_mission_running = False, has_mission_begun = True, ws_errors = [],
               mission_control_messages = [], rewards = [], observations = [],
               video_frames = [], number_of_video_frames_since_last_state = 0,
               number_of_rewards_since_last_state = 0,
               number_of_observations_since_last_state = 0\<rparr>"

definition host0 :: agent_host where
  "host0 = \<lparr>h_states = (\<lambda>n. ws_over), h_queries = 0,
             h_start_results =
               (\<lambda>n. if n < 2 then Some (Exn RuntimeError ''no client available'' []) else None),
             h_starts = 0, h_log = []\<rparr>"

definition lib0 :: malmo_externals where
  "lib0 = \<lparr>load_mission = Inr False,
            world_state_parser = (\<lambda>ws. Inl (Exn NotImplementedError [] [])),
            et_fromstring = (\<lambda>s. None), json_loads = (\<lambda>s. Inr s),
            py_str = (\<lambda>a. [])\<rparr>"

definition env0 :: MalmoEnvironment where
  "env0 = \<lparr>m_agent_host = host0, m_parse_world_state = False, m_has_client_pool = True,
            m_max_retries = 3, m_retry_sleep = 10, m_step_sleep = 1 / 1000, m_skip_steps = 0,
            m_forceWorldReset = False, m_mission_forces_reset = False, m_num_actions = 4,
            m_num_resets = 1, m_replay_buffer_size = 2,
            m_replay_buffer = [np_zeros [1, 1, 1], np_zeros [1, 1, 1]],
            m_observation_shape = [2, 1, 1],
            m_last_image = np_zeros [1, 1, 1], m_previous_observations = None,
            m_action_spaces = [Discrete], m_action_names = [[''move 1'', ''move -1'']]\<rparr>"


section \<open>Proofs: checkpoints\<close>

lemma isdir_update_File:
  "\<not> isdir fs k \<Longrightarrow> isdir (AList.update k (File c) fs) p = isdir fs p"
  by (auto simp: isdir_def update_conv')

lemma copy2_InrD:
  "shutil_copy2 fs s d = Inr fs' \<Longrightarrow>
   \<exists>c. map_of fs s = Some (File c) \<and> fs' = AList.update (copy_target fs s d) (File c) fs
     \<and> \<not> isdir fs (copy_target fs s d) \<and> isdir fs (butlast (copy_target fs s d))
     \<and> copy_target fs s d \<noteq> s"
  by (auto simp: shutil_copy2_def Let_def split: if_splits option.splits node.splits)

lemma copy2_fix:
  "map_of fs s = Some (File c) \<Longrightarrow> map_of fs (copy_target fs s d) = Some (File c) \<Longrightarrow>
   isdir fs (butlast (copy_target fs s d)) \<Longrightarrow> copy_target fs s d \<noteq> s \<Longrightarrow>
   copy_target fs s d \<noteq> [] \<Longrightarrow> shutil_copy2 fs s d = Inr fs"
  by (auto simp: shutil_copy2_def Let_def isdir_def update_triv split: if_splits)

lemma copy_target_cases:
  "copy_target fs (src @ [item]) (dst @ [item]) = dst @ [item] \<or>
   copy_target fs (src @ [item]) (dst @ [item]) = dst @ [item, item]"
  by (simp add: copy_target_def)

lemma copy_target_cong:
  "\<forall>p. isdir fs2 p = isdir fs p \<Longrightarrow> copy_target fs2 s d = copy_target fs s d"
  by (simp add: copy_target_def)

lemma loop_frame:
  "copy_files_loop src (src @ [ck]) items fs = (r, fs1) \<Longrightarrow>
   (\<forall>p. isdir fs1 p = isdir fs p) \<and>
   (\<forall>p. length p \<le> length src + 1 \<longrightarrow> map_of fs1 p = map_of fs p) \<and>
   filter (\<lambda>q. q \<noteq> [] \<and> butlast q = src) (map fst fs1)
     = filter (\<lambda>q. q \<noteq> [] \<and> butlast q = src) (map fst fs)"
proof (induction items arbitrary: fs)
  case Nil
  then show ?case by simp
next
  case (Cons item items)
  let ?s = "src @ [item]" and ?d = "(src @ [ck]) @ [item]"
  show ?case
  proof (cases "isdir fs ?s")
    case True
    with Cons.prems have "copy_files_loop src (src @ [ck]) items fs = (r, fs1)" by simp
    from Cons.IH [OF this] show ?thesis .
  next
    case False
    show ?thesis
    proof (cases "shutil_copy2 fs ?s ?d")
      case (Inl e)
      with False Cons.prems show ?thesis by simp
    next
      case (Inr fs')
      with False Cons.prems have run: "copy_files_loop src (src @ [ck]) items fs' = (r, fs1)" by simp
      let ?t = "copy_target fs ?s ?d"
      from copy2_InrD [OF Inr] obtain c where
        fs': "fs' = AList.update ?t (File c) fs" and nd: "\<not> isdir fs ?t"
        by blast
      have t: "?t = src @ [ck, item] \<or> ?t = src @ [ck, item, item]"
        using copy_target_cases [of fs src item "src @ [ck]"] by simp
      have len: "length src + 2 \<le> length ?t" using t by auto
      have bl: "butlast ?t \<noteq> src" using t by (auto simp: butlast_append)
      have a: "\<forall>p. isdir fs' p = isdir fs p" using fs' nd by (simp add: isdir_update_File)
      have b: "\<forall>p. length p \<le> length src + 1 \<longrightarrow> map_of fs' p = map_of fs p"
        using len unfolding fs' by (auto simp: update_conv')
      have c: "filter (\<lambda>q. q \<noteq> [] \<and> butlast q = src) (map fst fs')
         = filter (\<lambda>q. q \<noteq> [] \<and> butlast q = src) (map fst fs)"
        using bl unfolding fs' by (simp add: update_keys)
      from Cons.IH [OF run] a b c show ?thesis by simp
    qed
  qed
qed


lemma loop_keeps_copy:
  "copy_files_loop src (src @ [ck]) items fs = (r, fs1) \<Longrightarrow>
   map_of fs (src @ [item]) = Some (File c) \<Longrightarrow>
   t = src @ [ck, item] \<or> t = src @ [ck, item, item] \<Longrightarrow>
   map_of fs t = Some (File c) \<Longrightarrow> map_of fs1 t = Some (File c)"
proof (induction items arbitrary: fs)
  case Nil
  then show ?case by simp
next
  case (Cons i items)
  let ?s = "src @ [i]" and ?d = "(src @ [ck]) @ [i]"
  show ?case
  proof (cases "isdir fs ?s")
    case True
    with Cons.prems(1) have "copy_files_loop src (src @ [ck]) items fs = (r, fs1)" by simp
    from Cons.IH [OF this Cons.prems(2,3,4)] show ?thesis .
  next
    case False
    show ?thesis
    proof (cases "shutil_copy2 fs ?s ?d")
      case (Inl e)
      with False Cons.prems show ?thesis by simp
    next
      case (Inr fs')
      with False Cons.prems(1) have run: "copy_files_loop src (src @ [ck]) items fs' = (r, fs1)"
        by simp
      let ?t = "copy_target fs ?s ?d"
      from copy2_InrD [OF Inr] obtain c' where
        src: "map_of fs ?s = Some (File c')" and
        fs': "fs' = AList.update ?t (File c') fs"
        by blast
      have t: "?t = src @ [ck, i] \<or> ?t = src @ [ck, i, i]"
        using copy_target_cases [of fs src i "src @ [ck]"] by simp
      have same: "c' = c" if "?t = t"
      proof -
        from that t Cons.prems(3) have "i = item" by auto
        with src Cons.prems(2) show ?thesis by simp
      qed
      have keep: "map_of fs' t = Some (File c)"
        using same Cons.prems(4) unfolding fs' by (auto simp: update_conv')
      have ne: "src @ [item] \<noteq> ?t" using t by auto
      have s': "map_of fs' (src @ [item]) = Some (File c)"
        using ne Cons.prems(2) unfolding fs' by (simp add: update_conv')
      from Cons.IH [OF run s' Cons.prems(3) keep] show ?thesis .
    qed
  qed
qed

lemma loop_idem:
  "copy_files_loop src (src @ [ck]) items fs = (r, fs1) \<Longrightarrow>
   copy_files_loop src (src @ [ck]) items fs1 = (r, fs1)"
proof (induction items arbitrary: fs)
  case Nil
  then show ?case by simp
next
  case (Cons i items)
  let ?s = "src @ [i]" and ?d = "(src @ [ck]) @ [i]"
  note fr = loop_frame
  show ?case
  proof (cases "isdir fs ?s")
    case True
    with Cons.prems have run: "copy_files_loop src (src @ [ck]) items fs = (r, fs1)" by simp
    from fr [OF run] True have "isdir fs1 ?s" by simp
    with Cons.IH [OF run] show ?thesis by simp
  next
    case False
    show ?thesis
    proof (cases "shutil_copy2 fs ?s ?d")
      case (Inl e)
      with False Cons.prems show ?thesis by auto
    next
      case (Inr fs')
      with False Cons.prems have run: "copy_files_loop src (src @ [ck]) items fs' = (r, fs1)"
        by simp
      let ?t = "copy_target fs ?s ?d"
      from copy2_InrD [OF Inr] obtain c where
        src: "map_of fs ?s = Some (File c)" and
        fs': "fs' = AList.update ?t (File c) fs" and
        nd: "\<not> isdir fs ?t" and par: "isdir fs (butlast ?t)"
        by blast
      have t: "?t = src @ [ck, i] \<or> ?t = src @ [ck, i, i]"
        using copy_target_cases [of fs src i "src @ [ck]"] by simp
      have ne: "?t \<noteq> ?s" "?t \<noteq> []" using t by auto
      have dir': "\<forall>p. isdir fs' p = isdir fs p" using nd unfolding fs' by (simp add: isdir_update_File)
      have s': "map_of fs' ?s = Some (File c)"
        using ne src unfolding fs' by (simp add: update_conv')
      have t': "map_of fs' ?t = Some (File c)" unfolding fs' by (simp add: update_conv')
      from fr [OF run] dir' have dir1: "\<forall>p. isdir fs1 p = isdir fs p" by simp
      from fr [OF run] s' have s1: "map_of fs1 ?s = Some (File c)" by simp
      have t1: "map_of fs1 ?t = Some (File c)"
        using loop_keeps_copy [OF run s' t t'] .
      have tgt1: "copy_target fs1 ?s ?d = ?t" using dir1 by (rule copy_target_cong)
      have "shutil_copy2 fs1 ?s ?d = Inr fs1"
        by (rule copy2_fix [OF s1]) (simp_all only: tgt1 t1 dir1 par ne not_False_eq_True)
      moreover have "\<not> isdir fs1 ?s" using dir1 False by simp
      ultimately show ?thesis using Cons.IH [OF run] by simp
    qed
  qed
qed


lemma loop_copies:
  "copy_files_loop src (src @ [ck]) items fs = (None, fs1) \<Longrightarrow> item \<in> set items \<Longrightarrow>
   map_of fs (src @ [item]) = Some (File c) \<Longrightarrow>
   map_of fs1 (copy_target fs (src @ [item]) (src @ [ck, item])) = Some (File c)"
proof (induction items arbitrary: fs)
  case Nil
  then show ?case by simp
next
  case (Cons i items)
  let ?s = "src @ [i]" and ?d = "(src @ [ck]) @ [i]"
  have nodir: "\<not> isdir fs (src @ [item])" using Cons.prems(3) by (simp add: isdir_def)
  show ?case
  proof (cases "isdir fs ?s")
    case True
    with Cons.prems(1) have run: "copy_files_loop src (src @ [ck]) items fs = (None, fs1)" by simp
    from True nodir have "i \<noteq> item" by auto
    with Cons.prems(2) have "item \<in> set items" by simp
    from Cons.IH [OF run this Cons.prems(3)] show ?thesis .
  next
    case False
    show ?thesis
    proof (cases "shutil_copy2 fs ?s ?d")
      case (Inl e)
      with False Cons.prems show ?thesis by simp
    next
      case (Inr fs')
      with False Cons.prems(1) have run: "copy_files_loop src (src @ [ck]) items fs' = (None, fs1)"
        by simp
      let ?t = "copy_target fs ?s ?d"
      from copy2_InrD [OF Inr] obtain c' where
        src: "map_of fs ?s = Some (File c')" and
        fs': "fs' = AList.update ?t (File c') fs" and nd: "\<not> isdir fs ?t"
        by blast
      have t: "?t = src @ [ck, i] \<or> ?t = src @ [ck, i, i]"
        using copy_target_cases [of fs src i "src @ [ck]"] by simp
      have ne: "src @ [item] \<noteq> ?t" using t by auto
      have dir': "\<forall>p. isdir fs' p = isdir fs p" using nd unfolding fs' by (simp add: isdir_update_File)
      have s': "map_of fs' (src @ [item]) = Some (File c)"
        using ne Cons.prems(3) unfolding fs' by (simp add: update_conv')
      have tgt: "copy_target fs' (src @ [item]) (src @ [ck, item])
            = copy_target fs (src @ [item]) (src @ [ck, item])"
        using dir' by (rule copy_target_cong)
      show ?thesis
      proof (cases "i = item")
        case True
        with src Cons.prems(3) have cc: "c' = c" by simp
        have t': "map_of fs' ?t = Some (File c)" unfolding fs' cc by (simp add: update_conv')
        from loop_keeps_copy [OF run s' _ t'] t True show ?thesis by simp
      next
        case False
        with Cons.prems(2) have "item \<in> set items" by simp
        from Cons.IH [OF run this s'] tgt show ?thesis by simp
      qed
    qed
  qed
qed

lemma loop_only_targets:
  "copy_files_loop src (src @ [ck]) items fs = (r, fs1) \<Longrightarrow>
   \<forall>item c. map_of fs (src @ [item]) = Some (File c) \<longrightarrow>
      p \<noteq> copy_target fs (src @ [item]) (src @ [ck, item]) \<Longrightarrow>
   map_of fs1 p = map_of fs p"
proof (induction items arbitrary: fs)
  case Nil
  then show ?case by simp
next
  case (Cons i items)
  let ?s = "src @ [i]" and ?d = "(src @ [ck]) @ [i]"
  show ?case
  proof (cases "isdir fs ?s")
    case True
    with Cons.prems(1) have run: "copy_files_loop src (src @ [ck]) items fs = (r, fs1)" by simp
    from Cons.IH [OF run Cons.prems(2)] show ?thesis .
  next
    case False
    show ?thesis
    proof (cases "shutil_copy2 fs ?s ?d")
      case (Inl e)
      with False Cons.prems show ?thesis by simp
    next
      case (Inr fs')
      with False Cons.prems(1) have run: "copy_files_loop src (src @ [ck]) items fs' = (r, fs1)"
        by simp
      let ?t = "copy_target fs ?s ?d"
      from copy2_InrD [OF Inr] obtain c' where
        src: "map_of fs ?s = Some (File c')" and
        fs': "fs' = AList.update ?t (File c') fs" and nd: "\<not> isdir fs ?t"
        by blast
      have t: "?t = src @ [ck, i] \<or> ?t = src @ [ck, i, i]"
        using copy_target_cases [of fs src i "src @ [ck]"] by simp
      have dir': "\<forall>p. isdir fs' p = isdir fs p" using nd unfolding fs' by (simp add: isdir_update_File)
      have low: "map_of fs' (src @ [j]) = map_of fs (src @ [j])" for j
      proof -
        have "src @ [j] \<noteq> ?t" using t by auto
        then show ?thesis unfolding fs' by (simp add: update_conv')
      qed
      have tgt: "copy_target fs' (src @ [j]) (src @ [ck, j]) = copy_target fs (src @ [j]) (src @ [ck, j])" for j
        using dir' by (rule copy_target_cong)
      have "p \<noteq> ?t" using Cons.prems(2) src by simp
      then have here: "map_of fs' p = map_of fs p" unfolding fs' by (simp add: update_conv')
      have "\<forall>item c. map_of fs' (src @ [item]) = Some (File c) \<longrightarrow>
         p \<noteq> copy_target fs' (src @ [item]) (src @ [ck, item])"
        using Cons.prems(2) by (simp add: low tgt)
      from Cons.IH [OF run this] here show ?thesis by simp
    qed
  qed
qed

lemma mkdir_InrD:
  "os_mkdir fs p = Inr fs' \<Longrightarrow> fs' = AList.update p Dir fs \<and> map_of fs p = None \<and> p \<noteq> []"
  by (auto simp: os_mkdir_def split: if_splits)

text \<open>
  C7. A second call of \<^verbatim>\<open>save_experiment_checkpoint\<close> right after the first one returns or
  raises as the first did and leaves the file system exactly as the first call left it. When
  the call returns, the checkpoint directory exists, every regular file directly inside
  \<open>log_dir\<close> has its contents at its copy target (\<open>checkpoint/name\<close>, or
  \<open>checkpoint/name/name\<close> when \<open>checkpoint/name\<close> is a directory), and every path that
  is neither the checkpoint directory nor such a copy target is as it was: directories are
  not descended into and the checkpoint directory is not copied into itself.
\<close>

theorem save_experiment_checkpoint_twice:
  assumes "save_experiment_checkpoint log_dir fs = (r, fs1)"
  shows "save_experiment_checkpoint log_dir fs1 = (r, fs1) \<and>
    (r = None \<longrightarrow>
       isdir fs1 (log_dir @ [''checkpoint'']) \<and>
       (\<forall>item c. map_of fs (log_dir @ [item]) = Some (File c) \<longrightarrow>
          map_of fs1 (copy_target fs1 (log_dir @ [item]) (log_dir @ [''checkpoint'', item]))
            = Some (File c)) \<and>
       (\<forall>p. p \<noteq> log_dir @ [''checkpoint''] \<and>
          (\<forall>item c. map_of fs (log_dir @ [item]) = Some (File c) \<longrightarrow>
             p \<noteq> copy_target fs1 (log_dir @ [item]) (log_dir @ [''checkpoint'', item])) \<longrightarrow>
          map_of fs1 p = map_of fs p))"
proof -
  let ?ck = "log_dir @ [''checkpoint'']"
  define fs0 where "fs0 = (if isdir fs ?ck then fs else AList.update ?ck Dir fs)"
  have start: "(\<exists>e. r = Some e \<and> fs1 = fs \<and> \<not> isdir fs ?ck \<and> os_mkdir fs ?ck = Inl e)
      \<or> (copy_files log_dir ?ck fs0 = (r, fs1) \<and> isdir fs0 ?ck \<and>
          (\<forall>p. p \<noteq> ?ck \<longrightarrow> map_of fs0 p = map_of fs p) \<and>
          (\<forall>c. map_of fs ?ck \<noteq> Some (File c)))"
  proof (cases "isdir fs ?ck")
    case True
    with assms show ?thesis
      by (auto simp: save_experiment_checkpoint_def fs0_def isdir_def)
  next
    case False
    show ?thesis
    proof (cases "os_mkdir fs ?ck")
      case (Inl e)
      with False assms show ?thesis by (auto simp: save_experiment_checkpoint_def)
    next
      case (Inr fs')
      from mkdir_InrD [OF Inr] have fs': "fs' = fs0" and none: "map_of fs ?ck = None"
        using False by (simp_all add: fs0_def)
      have "isdir fs0 ?ck" using False by (simp add: fs0_def isdir_def update_conv')
      moreover have "\<forall>p. p \<noteq> ?ck \<longrightarrow> map_of fs0 p = map_of fs p"
        by (simp add: fs0_def update_conv')
      moreover have "copy_files log_dir ?ck fs0 = (r, fs1)"
        using assms False Inr fs' by (simp add: save_experiment_checkpoint_def)
      ultimately show ?thesis using none by simp
    qed
  qed
  then show ?thesis
  proof
    assume "\<exists>e. r = Some e \<and> fs1 = fs \<and> \<not> isdir fs ?ck \<and> os_mkdir fs ?ck = Inl e"
    then show ?thesis by (auto simp: save_experiment_checkpoint_def)
  next
    assume a: "copy_files log_dir ?ck fs0 = (r, fs1) \<and> isdir fs0 ?ck \<and>
          (\<forall>p. p \<noteq> ?ck \<longrightarrow> map_of fs0 p = map_of fs p) \<and>
          (\<forall>c. map_of fs ?ck \<noteq> Some (File c))"
    show ?thesis
    proof (cases "os_listdir fs0 log_dir")
      case (Inl e)
      with a have "r = Some e" "fs1 = fs0" by (simp_all add: copy_files_def)
      with a Inl show ?thesis by (simp add: save_experiment_checkpoint_def copy_files_def)
    next
      case (Inr items)
      with a have run: "copy_files_loop log_dir (log_dir @ [''checkpoint'']) items fs0 = (r, fs1)"
        by (simp add: copy_files_def)
      note fr = loop_frame [OF run]
      have lsdir: "isdir fs0 log_dir"
        and items: "items = map last (filter (\<lambda>q. q \<noteq> [] \<and> butlast q = log_dir) (map fst fs0))"
        using Inr by (auto simp: os_listdir_def split: if_splits)
      have ls1: "os_listdir fs1 log_dir = Inr items"
        using fr lsdir items by (simp add: os_listdir_def)
      have ck1: "isdir fs1 ?ck" using fr a by simp
      have idem: "save_experiment_checkpoint log_dir fs1 = (r, fs1)"
        using ck1 ls1 loop_idem [OF run] by (simp add: save_experiment_checkpoint_def copy_files_def)
      have tgt: "copy_target fs1 s d = copy_target fs0 s d" for s d
        using fr by (simp add: copy_target_def)
      have file0: "map_of fs0 (log_dir @ [item]) = Some (File c)"
        if "map_of fs (log_dir @ [item]) = Some (File c)" for item c
      proof -
        from that a have "log_dir @ [item] \<noteq> ?ck" by auto
        with a that show ?thesis by simp
      qed
      have copies: "map_of fs1 (copy_target fs1 (log_dir @ [item]) (log_dir @ [''checkpoint'', item]))
            = Some (File c)"
        if none: "r = None" and f: "map_of fs (log_dir @ [item]) = Some (File c)" for item c
      proof -
        from file0 [OF f] have "(log_dir @ [item], File c) \<in> set fs0" by (rule map_of_SomeD)
        then have "log_dir @ [item] \<in> set (map fst fs0)" by force
        then have "item \<in> set items" unfolding items by force
        from loop_copies [OF run [unfolded none] this file0 [OF f]] show ?thesis by (simp add: tgt)
      qed
      have rest: "map_of fs1 p = map_of fs p"
        if p: "p \<noteq> ?ck" and np: "\<forall>item c. map_of fs (log_dir @ [item]) = Some (File c) \<longrightarrow>
             p \<noteq> copy_target fs1 (log_dir @ [item]) (log_dir @ [''checkpoint'', item])" for p
      proof -
        have same: "map_of fs0 (log_dir @ [item]) = map_of fs (log_dir @ [item])
            \<or> log_dir @ [item] = ?ck" for item
          using a by auto
        have "\<forall>item c. map_of fs0 (log_dir @ [item]) = Some (File c) \<longrightarrow>
            p \<noteq> copy_target fs0 (log_dir @ [item]) (log_dir @ [''checkpoint'', item])"
        proof (intro allI impI)
          fix item c assume f0: "map_of fs0 (log_dir @ [item]) = Some (File c)"
          have "log_dir @ [item] \<noteq> ?ck" using f0 a by (auto simp: isdir_def)
          with a f0 have "map_of fs (log_dir @ [item]) = Some (File c)" by simp
          with np show "p \<noteq> copy_target fs0 (log_dir @ [item]) (log_dir @ [''checkpoint'', item])"
            by (simp add: tgt)
        qed
        from loop_only_targets [OF run this] a p show ?thesis by simp
      qed
      from idem ck1 copies rest show ?thesis by blast
    qed
  qed
qed

theorem save_experiment_checkpoint_twice_witness:
  "save_experiment_checkpoint [''logs'', ''e1'']
     [([''logs''], Dir), ([''logs'', ''e1''], Dir),
      ([''logs'', ''e1'', ''train.log''], File ''run 1''),
      ([''logs'', ''e1'', ''sub''], Dir),
      ([''logs'', ''e1'', ''sub'', ''events''], File ''nested'')]
   = (None,
     [([''logs''], Dir), ([''logs'', ''e1''], Dir),
      ([''logs'', ''e1'', ''train.log''], File ''run 1''),
      ([''logs'', ''e1'', ''sub''], Dir),
      ([''logs'', ''e1'', ''sub'', ''events''], File ''nested''),
      ([''logs'', ''e1'', ''checkpoint''], Dir),
      ([''logs'', ''e1'', ''checkpoint'', ''train.log''], File ''run 1'')])
   \<and> save_experiment_checkpoint [''logs'', ''e1'']
     [([''logs''], Dir), ([''logs'', ''e1''], Dir),
      ([''logs'', ''e1'', ''train.log''], File ''run 1''),
      ([''logs'', ''e1'', ''sub''], Dir),
      ([''logs'', ''e1'', ''sub'', ''events''], File ''nested''),
      ([''logs'', ''e1'', ''checkpoint''], Dir),
      ([''logs'', ''e1'', ''checkpoint'', ''train.log''], File ''run 1'')]
   = (None,
     [([''logs''], Dir), ([''logs'', ''e1''], Dir),
      ([''logs'', ''e1'', ''train.log''], File ''run 1''),
      ([''logs'', ''e1'', ''sub''], Dir),
      ([''logs'', ''e1'', ''sub'', ''events''], File ''nested''),
      ([''logs'', ''e1'', ''checkpoint''], Dir),
      ([''logs'', ''e1'', ''checkpoint'', ''train.log''], File ''run 1'')])"
proof -
  have first: "save_experiment_checkpoint [''logs'', ''e1'']
     [([''logs''], Dir), ([''logs'', ''e1''], Dir),
      ([''logs'', ''e1'', ''train.log''], File ''run 1''),
      ([''logs'', ''e1'', ''sub''], Dir),
      ([''logs'', ''e1'', ''sub'', ''events''], File ''nested'')]
   = (None,
     [([''logs''], Dir), ([''logs'', ''e1''], Dir),
      ([''logs'', ''e1'', ''train.log''], File ''run 1''),
      ([''logs'', ''e1'', ''sub''], Dir),
      ([''logs'', ''e1'', ''sub'', ''events''], File ''nested''),
      ([''logs'', ''e1'', ''checkpoint''], Dir),
      ([''logs'', ''e1'', ''checkpoint'', ''train.log''], File ''run 1'')])"
    by (simp add: save_experiment_checkpoint_def copy_files_def os_listdir_def os_mkdir_def
        shutil_copy2_def copy_target_def isdir_def)
  from save_experiment_checkpoint_twice [OF first] first show ?thesis by blast
qed

section \<open>Proofs: the supervisor\<close>

lemma statuses_written_append [simp]:
  "statuses_written i (xs @ ys) = statuses_written i xs @ statuses_written i ys"
  by (simp add: statuses_written_def)

lemma statuses_written_Nil [simp]: "statuses_written i [] = []"
  by (simp add: statuses_written_def)

lemma statuses_written_Cons [simp]:
  "statuses_written i (ev # evs) = event_statuses i ev @ statuses_written i evs"
  by (simp add: statuses_written_def)

lemma messages_sent_append [simp]:
  "messages_sent (xs @ ys) = messages_sent xs @ messages_sent ys"
  by (simp add: messages_sent_def)

lemma messages_sent_Nil [simp]: "messages_sent [] = []"
  by (simp add: messages_sent_def)

lemma messages_sent_Cons [simp]:
  "messages_sent (ev # evs) = event_message ev @ messages_sent evs"
  by (simp add: messages_sent_def)

lemma find_and_reserve_quiet:
  "find_and_reserve_client i w = (a, w1) \<Longrightarrow>
   statuses_written j (trace w1) = statuses_written j (trace w) \<and>
   messages_sent (trace w1) = messages_sent (trace w) \<and>
   users w1 = users w \<and> experiments w1 = experiments w"
  by (auto simp: find_and_reserve_client_def emit_def split: option.splits)

lemmas wait_for_client_induct =
  wait_for_client.raw_induct [rotated 1, consumes 1, case_names step]

lemma wait_for_client_quiet:
  "wait_for_client i ca w = Some y \<Longrightarrow>
   (\<forall>j. statuses_written j (trace (snd y)) = statuses_written j (trace w)) \<and>
   messages_sent (trace (snd y)) = messages_sent (trace w) \<and>
   users (snd y) = users w \<and> experiments (snd y) = experiments w"
proof (induction rule: wait_for_client_induct)
  case (step f i ca w y)
  obtain a w1 where fr: "find_and_reserve_client i w = (a, w1)"
    by (cases "find_and_reserve_client i w")
  note q = find_and_reserve_quiet [OF fr]
  show ?case
  proof (cases "\<exists>c cs. ca = Some (c # cs)")
    case True
    with step(2) show ?thesis by auto
  next
    case False
    with step(2) fr have "f i a (time_sleep 10 w1) = Some y"
      by (auto split: option.splits list.splits)
    from step(1) [OF this] q show ?thesis by (simp add: time_sleep_def)
  qed
qed

lemma reserve_clients_quiet:
  "reserve_clients i n pool ca w = Some (r, w') \<Longrightarrow>
   statuses_written j (trace w') = statuses_written j (trace w) \<and>
   messages_sent (trace w') = messages_sent (trace w) \<and>
   users w' = users w \<and> experiments w' = experiments w"
proof (induction n arbitrary: pool ca w)
  case 0
  then show ?case by simp
next
  case (Suc n)
  from Suc.prems obtain a w1 where wt: "wait_for_client i None w = Some (a, w1)"
    by (auto split: option.splits)
  from wait_for_client_quiet [OF wt]
  have q: "statuses_written j (trace w1) = statuses_written j (trace w) \<and>
     messages_sent (trace w1) = messages_sent (trace w) \<and>
     users w1 = users w \<and> experiments w1 = experiments w" by simp
  show ?case
  proof (cases "client_from_pool pool")
    case (Inl e)
    with Suc.prems wt have "w' = w1" by simp
    with q show ?thesis by simp
  next
    case (Inr c)
    with Suc.prems wt have "reserve_clients i n (pool @ [c]) (Some a) w1 = Some (r, w')" by simp
    from Suc.IH [OF this] q show ?thesis by simp
  qed
qed

lemma client_from_pool_raises: "\<exists>e. client_from_pool pool = Inl e"
  by (cases pool rule: list.exhaust [case_names Nil Cons])
    (auto simp: client_from_pool_def split: list.splits)

lemma reserve_clients_Inr:
  assumes run: "reserve_clients i n pool ca w = Some (Inr (pool', ca'), w1)"
  shows "n = 0 \<and> pool' = pool \<and> ca' = ca \<and> w1 = w"
proof (cases n)
  case 0
  with run show ?thesis by simp
next
  case (Suc m)
  obtain e where "client_from_pool pool = Inl e" using client_from_pool_raises by blast
  with run Suc show ?thesis by (auto split: option.splits)
qed

lemma train_model_try_trace:
  "train_model_try experiment log_dir model_runner env_id model_params client_pool w = (r, w1) \<Longrightarrow>
   users w1 = users w \<and> map e_id (experiments w1) = map e_id (experiments w) \<and>
   ((e_id experiment \<notin> set (map e_id (experiments w)) \<and> trace w1 = trace w \<and> r \<noteq> None
       \<and> (\<forall>e. r = Some e \<longrightarrow> is_Exception e)) \<or>
    (e_id experiment \<in> set (map e_id (experiments w)) \<and>
     (\<exists>fs'. model_runner \<lparr>r_log_dir = log_dir, r_env_id = env_id,
             r_client_pool = client_pool, r_ignore_steps = 10, r_params = model_params\<rparr>
             (files w) = (r, fs')) \<and>
     trace w1 = trace w @ [Updated (e_id experiment) [Set_status RUNNING], MonitorStart,
        Called \<lparr>r_log_dir = log_dir, r_env_id = env_id,
             r_client_pool = client_pool, r_ignore_steps = 10, r_params = model_params\<rparr>]))"
  by (auto simp: train_model_try_def update_experiment_def monitor_start_def emit_def Let_def
      is_Exception_def comp_def split: if_splits prod.splits)

lemma train_model_except_trace:
  "train_model_except experiment e w = (r', w2) \<Longrightarrow>
   users w2 = users w \<and>
   ((e_id experiment \<notin> set (map e_id (experiments w)) \<and>
       trace w2 = trace w @ [MonitorStop, MonitorJoin]) \<or>
    (e_id experiment \<in> set (map e_id (experiments w)) \<and>
       map_of (users w) (e_owner experiment) = None \<and>
       (\<exists>t. trace w2 = trace w @ [MonitorStop, MonitorJoin,
                 Updated (e_id experiment) [Set_status FAILED, Set_end_date t]])) \<or>
    (e_id experiment \<in> set (map e_id (experiments w)) \<and>
       (\<exists>t chat. map_of (users w) (e_owner experiment) = Some chat \<and>
          trace w2 = trace w @ [MonitorStop, MonitorJoin,
                 Updated (e_id experiment) [Set_status FAILED, Set_end_date t],
                 Sent chat (failed_message (e_id experiment) (format_exc e))])))"
  by (auto simp: train_model_except_def update_experiment_def monitor_stop_def monitor_join_def
      send_message_to_owner_def get_user_def bot_send_message_def emit_def Let_def
      split: if_splits prod.splits option.splits)

lemma train_model_else_trace:
  "train_model_else experiment w = (r', w2) \<Longrightarrow>
   users w2 = users w \<and>
   ((e_id experiment \<notin> set (map e_id (experiments w)) \<and> trace w2 = trace w) \<or>
    (e_id experiment \<in> set (map e_id (experiments w)) \<and>
       map_of (users w) (e_owner experiment) = None \<and>
       (\<exists>t. trace w2 = trace w @
                 [Updated (e_id experiment) [Set_status COMPLETED, Set_end_date t]])) \<or>
    (e_id experiment \<in> set (map e_id (experiments w)) \<and>
       (\<exists>t chat. map_of (users w) (e_owner experiment) = Some chat \<and>
          trace w2 = trace w @
                 [Updated (e_id experiment) [Set_status COMPLETED, Set_end_date t],
                  Sent chat (completed_message (e_id experiment))])))"
  by (auto simp: train_model_else_def update_experiment_def
      send_message_to_owner_def get_user_def bot_send_message_def emit_def Let_def
      split: if_splits prod.splits option.splits)

lemma train_model_finally_quiet:
  "train_model_finally client_address w = (rf, w3) \<Longrightarrow>
   statuses_written j (trace w3) = statuses_written j (trace w) \<and>
   messages_sent (trace w3) = messages_sent (trace w)"
  by (auto simp: train_model_finally_def update_client_def monitor_stop_def monitor_join_def
      emit_def Let_def split: if_splits prod.splits option.splits)


lemma event_statuses_simps [simp]:
  "event_statuses j MonitorStart = []" "event_statuses j MonitorStop = []"
  "event_statuses j MonitorJoin = []" "event_statuses j (Called c) = []"
  "event_statuses j (Sent a b) = []" "event_statuses j (Started p) = []"
  "event_statuses j (Checkpointed q) = []"
  by simp_all

lemma train_model_supervise_effects:
  assumes run: "train_model_supervise experiment log_dir model_runner env_id model_params
      client_pool client_address w = (r, w')"
  shows "\<exists>ws ms.
     (\<forall>j. statuses_written j (trace w') =
        statuses_written j (trace w) @ (if j = e_id experiment then ws else [])) \<and>
     messages_sent (trace w') = messages_sent (trace w) @ ms \<and>
     ((ws = [] \<and> ms = []) \<or>
      (ws = [RUNNING] \<and> ms = []) \<or>
      (ws = [RUNNING, COMPLETED] \<and>
         (map_of (users w) (e_owner experiment) = None \<and> ms = [] \<or>
          (\<exists>chat. map_of (users w) (e_owner experiment) = Some chat \<and>
             ms = [(chat, completed_message (e_id experiment))]))) \<or>
      (ws = [RUNNING, FAILED] \<and>
         (\<exists>e fs'. model_runner \<lparr>r_log_dir = log_dir, r_env_id = env_id,
               r_client_pool = client_pool, r_ignore_steps = 10, r_params = model_params\<rparr>
               (files w) = (Some e, fs') \<and>
            (map_of (users w) (e_owner experiment) = None \<and> ms = [] \<or>
             (\<exists>chat. map_of (users w) (e_owner experiment) = Some chat \<and>
                ms = [(chat, failed_message (e_id experiment) (format_exc e))])))))"
proof -
  let ?i = "e_id experiment"
  obtain r1 w1 where t: "train_model_try experiment log_dir model_runner env_id model_params
      client_pool w = (r1, w1)" by (cases "train_model_try experiment log_dir model_runner env_id model_params
      client_pool w")
  obtain r2 w2 where h: "(case r1 of
                   Some e \<Rightarrow> if is_Exception e then train_model_except experiment e w1
                             else (Some e, w1)
                 | None \<Rightarrow> train_model_else experiment w1) = (r2, w2)"
    by (cases "(case r1 of
                   Some e \<Rightarrow> if is_Exception e then train_model_except experiment e w1
                             else (Some e, w1)
                 | None \<Rightarrow> train_model_else experiment w1)")
  obtain rf w3 where f: "train_model_finally client_address w2 = (rf, w3)"
    by (cases "train_model_finally client_address w2")
  from run t h f have w': "w' = w3"
    by (auto simp: train_model_supervise_def split: option.splits)
  note tq = train_model_try_trace [OF t]
  note fq = train_model_finally_quiet [OF f]
  from tq have u1: "users w1 = users w"
    and ids1: "map e_id (experiments w1) = map e_id (experiments w)" by simp_all
  show ?thesis
  proof (cases "?i \<in> set (map e_id (experiments w))")
    case False
    with tq obtain e where r1: "r1 = Some e" "is_Exception e" and tr1: "trace w1 = trace w"
      by auto
    from h r1 have "train_model_except experiment e w1 = (r2, w2)" by simp
    from train_model_except_trace [OF this] False ids1 tr1
    have "trace w2 = trace w @ [MonitorStop, MonitorJoin]" by simp
    with fq w' have "(\<forall>j. statuses_written j (trace w') = statuses_written j (trace w) @ [])
       \<and> messages_sent (trace w') = messages_sent (trace w) @ []" by simp
    then show ?thesis by (intro exI [of _ "[]"]) simp
  next
    case True
    with tq obtain fs' where
      mr: "model_runner \<lparr>r_log_dir = log_dir, r_env_id = env_id,
             r_client_pool = client_pool, r_ignore_steps = 10, r_params = model_params\<rparr>
             (files w) = (r1, fs')"
      and tr1: "trace w1 = trace w @ [Updated ?i [Set_status RUNNING], MonitorStart,
        Called \<lparr>r_log_dir = log_dir, r_env_id = env_id,
             r_client_pool = client_pool, r_ignore_steps = 10, r_params = model_params\<rparr>]"
      by auto
    from True ids1 have in1: "?i \<in> set (map e_id (experiments w1))" by simp
    show ?thesis
    proof (cases r1)
      case None
      with h have "train_model_else experiment w1 = (r2, w2)" by simp
      from train_model_else_trace [OF this] in1 u1
      have "(map_of (users w) (e_owner experiment) = None \<and>
         (\<exists>t. trace w2 = trace w1 @ [Updated ?i [Set_status COMPLETED, Set_end_date t]])) \<or>
         (\<exists>t chat. map_of (users w) (e_owner experiment) = Some chat \<and>
          trace w2 = trace w1 @ [Updated ?i [Set_status COMPLETED, Set_end_date t],
                  Sent chat (completed_message ?i)])" by auto
      then show ?thesis
      proof
        assume a: "map_of (users w) (e_owner experiment) = None \<and>
         (\<exists>t. trace w2 = trace w1 @ [Updated ?i [Set_status COMPLETED, Set_end_date t]])"
        with tr1 fq w' have "(\<forall>j. statuses_written j (trace w') =
            statuses_written j (trace w) @ (if j = ?i then [RUNNING, COMPLETED] else []))
          \<and> messages_sent (trace w') = messages_sent (trace w) @ []" by auto
        with a show ?thesis by (intro exI [of _ "[RUNNING, COMPLETED]"] exI [of _ "[]"]) simp
      next
        assume "\<exists>t chat. map_of (users w) (e_owner experiment) = Some chat \<and>
          trace w2 = trace w1 @ [Updated ?i [Set_status COMPLETED, Set_end_date t],
                  Sent chat (completed_message ?i)]"
        then obtain t chat where a: "map_of (users w) (e_owner experiment) = Some chat"
          and tr2: "trace w2 = trace w1 @ [Updated ?i [Set_status COMPLETED, Set_end_date t],
                  Sent chat (completed_message ?i)]" by blast
        with tr1 fq w' have "(\<forall>j. statuses_written j (trace w') =
            statuses_written j (trace w) @ (if j = ?i then [RUNNING, COMPLETED] else []))
          \<and> messages_sent (trace w') = messages_sent (trace w) @ [(chat, completed_message ?i)]"
          by auto
        with a show ?thesis
          by (intro exI [of _ "[RUNNING, COMPLETED]"] exI [of _ "[(chat, completed_message ?i)]"])
            simp
      qed
    next
      case (Some e)
      show ?thesis
      proof (cases "is_Exception e")
        case False
        with h Some have "w2 = w1" by simp
        with tr1 fq w' have "(\<forall>j. statuses_written j (trace w') =
            statuses_written j (trace w) @ (if j = ?i then [RUNNING] else []))
          \<and> messages_sent (trace w') = messages_sent (trace w) @ []" by auto
        then show ?thesis by (intro exI [of _ "[RUNNING]"] exI [of _ "[]"]) simp
      next
        case True
        with h Some have "train_model_except experiment e w1 = (r2, w2)" by simp
        from train_model_except_trace [OF this] in1 u1
        have "(map_of (users w) (e_owner experiment) = None \<and>
           (\<exists>t. trace w2 = trace w1 @ [MonitorStop, MonitorJoin,
              Updated ?i [Set_status FAILED, Set_end_date t]])) \<or>
           (\<exists>t chat. map_of (users w) (e_owner experiment) = Some chat \<and>
            trace w2 = trace w1 @ [MonitorStop, MonitorJoin,
              Updated ?i [Set_status FAILED, Set_end_date t],
              Sent chat (failed_message ?i (format_exc e))])" by auto
        moreover from mr Some have raised: "model_runner \<lparr>r_log_dir = log_dir, r_env_id = env_id,
               r_client_pool = client_pool, r_ignore_steps = 10, r_params = model_params\<rparr>
               (files w) = (Some e, fs')" by simp
        ultimately show ?thesis
        proof (elim disjE)
          assume a: "map_of (users w) (e_owner experiment) = None \<and>
           (\<exists>t. trace w2 = trace w1 @ [MonitorStop, MonitorJoin,
              Updated ?i [Set_status FAILED, Set_end_date t]])"
          with tr1 fq w' have "(\<forall>j. statuses_written j (trace w') =
              statuses_written j (trace w) @ (if j = ?i then [RUNNING, FAILED] else []))
            \<and> messages_sent (trace w') = messages_sent (trace w) @ []" by auto
          with a raised show ?thesis
            by (intro exI [of _ "[RUNNING, FAILED]"] exI [of _ "[]"]) auto
        next
          assume "\<exists>t chat. map_of (users w) (e_owner experiment) = Some chat \<and>
            trace w2 = trace w1 @ [MonitorStop, MonitorJoin,
              Updated ?i [Set_status FAILED, Set_end_date t],
              Sent chat (failed_message ?i (format_exc e))]"
          then obtain t chat where a: "map_of (users w) (e_owner experiment) = Some chat"
            and tr2: "trace w2 = trace w1 @ [MonitorStop, MonitorJoin,
              Updated ?i [Set_status FAILED, Set_end_date t],
              Sent chat (failed_message ?i (format_exc e))]" by blast
          with tr1 fq w' have "(\<forall>j. statuses_written j (trace w') =
              statuses_written j (trace w) @ (if j = ?i then [RUNNING, FAILED] else []))
            \<and> messages_sent (trace w') = messages_sent (trace w)
                 @ [(chat, failed_message ?i (format_exc e))]" by auto
          with a raised show ?thesis
            by (intro exI [of _ "[RUNNING, FAILED]"]
                exI [of _ "[(chat, failed_message ?i (format_exc e))]"]) auto
        qed
      qed
    qed
  qed
qed


lemma train_model_effects:
  assumes run: "train_model experiment log_dir model_runner env_id model_params num_envs w
      = Some (r, w')"
  shows "\<exists>ws ms.
     (\<forall>j. statuses_written j (trace w') =
        statuses_written j (trace w) @ (if j = e_id experiment then ws else [])) \<and>
     messages_sent (trace w') = messages_sent (trace w) @ ms \<and>
     ((ws = [] \<and> ms = []) \<or>
      (ws = [RUNNING] \<and> ms = []) \<or>
      (ws = [RUNNING, COMPLETED] \<and>
         (map_of (users w) (e_owner experiment) = None \<and> ms = [] \<or>
          (\<exists>chat. map_of (users w) (e_owner experiment) = Some chat \<and>
             ms = [(chat, completed_message (e_id experiment))]))) \<or>
      (ws = [RUNNING, FAILED] \<and>
         (\<exists>fs e fs'. open_append (files w) (log_dir @ [''train.log'']) = Inr fs \<and>
            model_runner \<lparr>r_log_dir = log_dir, r_env_id = env_id,
               r_client_pool = [], r_ignore_steps = 10, r_params = model_params\<rparr>
               fs = (Some e, fs') \<and>
            (map_of (users w) (e_owner experiment) = None \<and> ms = [] \<or>
             (\<exists>chat. map_of (users w) (e_owner experiment) = Some chat \<and>
                ms = [(chat, failed_message (e_id experiment) (format_exc e))])))))"
proof (cases "open_append (files w) (log_dir @ [''train.log''])")
  case (Inl e)
  with run have "w' = w" by (simp add: train_model_def)
  then show ?thesis by (intro exI [of _ "[]"]) simp
next
  case (Inr files')
  let ?w0 = "w\<lparr>files := files'\<rparr>"
  from run Inr obtain res w1 where
    rc: "reserve_clients (e_id experiment) (nat num_envs) [] None ?w0 = Some (res, w1)"
    by (auto simp: train_model_def split: option.splits)
  from reserve_clients_quiet [OF rc]
  have q: "\<And>j. statuses_written j (trace w1) = statuses_written j (trace w)"
    "messages_sent (trace w1) = messages_sent (trace w)" "users w1 = users w"
    by simp_all
  show ?thesis
  proof (cases res)
    case (Inl e)
    with run Inr rc have "w' = w1" by (simp add: train_model_def)
    with q show ?thesis by (intro exI [of _ "[]"]) simp
  next
    case (Inr pair)
    obtain client_pool client_address where pair: "pair = (client_pool, client_address)"
      by (cases pair)
    from reserve_clients_Inr [OF rc [unfolded Inr pair]]
    have pool: "client_pool = []" and w1: "w1 = ?w0" by simp_all
    have f1: "files w1 = files'" using w1 by simp
    from run \<open>open_append (files w) (log_dir @ [''train.log'']) = Inr files'\<close> rc Inr pair
    have "train_model_supervise experiment log_dir model_runner env_id model_params
        client_pool client_address w1 = (r, w')"
      by (simp add: train_model_def)
    from train_model_supervise_effects [OF this]
    show ?thesis
      unfolding q f1 pool \<open>open_append (files w) (log_dir @ [''train.log'']) = Inr files'\<close>
      by simp
  qed
qed

lemma launch_quiet:
  "launch ext experiment p w = (r, w') \<Longrightarrow>
   (\<forall>j. statuses_written j (trace w') = statuses_written j (trace w)) \<and>
   experiments w' = experiments w \<and> files w' = files w \<and>
   (\<exists>evs. trace w' = trace w @ evs)"
  by (auto simp: launch_def start_process_def send_message_to_owner_def get_user_def
      bot_send_message_def emit_def Let_def split: sum.splits if_splits option.splits)

lemma update_experiment_trace:
  "update_experiment i fl w = (r, w') \<Longrightarrow>
   (r = Inr () \<and> i \<in> set (map e_id (experiments w)) \<and> trace w' = trace w @ [Updated i fl] \<and>
      files w' = files w \<and>
      experiments w' = map (\<lambda>e. if e_id e = i then fold set_field fl e else e) (experiments w))
   \<or> (\<exists>e. r = Inl e \<and> w' = w \<and> i \<notin> set (map e_id (experiments w)))"
  by (auto simp: update_experiment_def emit_def split: if_splits)


lemma fold_set_field_id [simp]: "e_id (fold set_field fl e) = e_id e"
proof (induction fl arbitrary: e)
  case Nil
  then show ?case by simp
next
  case (Cons f fl)
  then show ?case by (cases f) simp_all
qed

lemma update_rows_ids [simp]:
  "map e_id (map (\<lambda>e. if e_id e = i then fold set_field fl e else e) xs) = map e_id xs"
  by (induction xs) simp_all

lemma continue_cases:
  assumes run: "continue_experiement_with_monitoring ext user experiment n w = (r, w')"
  shows "(\<exists>e. r = Inl e \<and> experiments w' = experiments w \<and> trace w' = trace w \<and>
       (MODELS (e_model experiment) = None \<or>
        (\<exists>f. build_log_dir (module_dir ext) (e_id experiment) (files w) = (Inl e, f)) \<or>
        (\<exists>log_dir files1 f.
           build_log_dir (module_dir ext) (e_id experiment) (files w) = (Inr log_dir, files1) \<and>
           save_experiment_checkpoint log_dir files1 = (Some e, f)))) \<or>
    (\<exists>t log_dir files1 files2.
       MODELS (e_model experiment) = Some t \<and>
       build_log_dir (module_dir ext) (e_id experiment) (files w) = (Inr log_dir, files1) \<and>
       save_experiment_checkpoint log_dir files1 = (None, files2) \<and>
       ((\<exists>e. r = Inl e \<and> experiments w' = experiments w \<and>
              trace w' = trace w @ [Checkpointed log_dir] \<and>
              (e_id experiment \<notin> set (map e_id (experiments w)) \<or>
               py_add (e_total_timesteps experiment) n = Inl e)) \<or>
        (\<exists>new_total evs.
           py_add (e_total_timesteps experiment) n = Inr new_total \<and>
           e_id experiment \<in> set (map e_id (experiments w)) \<and>
           trace w' = trace w @ Checkpointed log_dir #
             Updated (e_id experiment)
               [Set_total_timesteps new_total, Set_status PENDING,
                Set_model_params
                  (AList.update ''total_timesteps'' (IntV n)
                    (AList.update ''load_path'' (PathV (log_dir @ [''model.pkl'']))
                      (e_model_params experiment))),
                Set_owner user] # evs \<and>
           (\<forall>j. statuses_written j evs = []) \<and>
           files w' = files2 \<and>
           map e_id (experiments w') = map e_id (experiments w) \<and>
           (\<forall>x \<in> set (experiments w'). e_id x = e_id experiment \<longrightarrow>
              e_total_timesteps x = new_total \<and> e_status x = PENDING \<and> e_owner x = user \<and>
              e_model_params x =
                AList.update ''total_timesteps'' (IntV n)
                  (AList.update ''load_path'' (PathV (log_dir @ [''model.pkl'']))
                    (e_model_params experiment))) \<and>
           (\<forall>x. r = Inr x \<longrightarrow> x = experiment\<lparr>e_model_params :=
                AList.update ''total_timesteps'' (IntV n)
                  (AList.update ''load_path'' (PathV (log_dir @ [''model.pkl'']))
                    (e_model_params experiment))\<rparr>))))"
proof (cases "MODELS (e_model experiment)")
  case None
  with run show ?thesis by (auto simp: continue_experiement_with_monitoring_def)
next
  case (Some t)
  obtain bl files1 where b: "build_log_dir (module_dir ext) (e_id experiment) (files w) = (bl, files1)"
    by (cases "build_log_dir (module_dir ext) (e_id experiment) (files w)")
  show ?thesis
  proof (cases bl)
    case (Inl e)
    with run Some b show ?thesis by (auto simp: continue_experiement_with_monitoring_def)
  next
    case (Inr log_dir)
    obtain ck files2 where c: "save_experiment_checkpoint log_dir files1 = (ck, files2)"
      by (cases "save_experiment_checkpoint log_dir files1")
    show ?thesis
    proof (cases ck)
      case (Some e)
      with run \<open>MODELS (e_model experiment) = Some t\<close> b Inr c show ?thesis
        by (auto simp: continue_experiement_with_monitoring_def)
    next
      case None
      let ?w1 = "emit (Checkpointed log_dir) (w\<lparr>files := files2\<rparr>)"
      let ?mp = "AList.update ''total_timesteps'' (IntV n)
                  (AList.update ''load_path'' (PathV (log_dir @ [''model.pkl'']))
                    (e_model_params experiment))"
      let ?ex = "experiment\<lparr>e_model_params := ?mp\<rparr>"
      let ?i = "e_id experiment"
      note pre = \<open>MODELS (e_model experiment) = Some t\<close> b Inr c None
      have tr1: "trace ?w1 = trace w @ [Checkpointed log_dir]" "experiments ?w1 = experiments w"
        "files ?w1 = files2"
        by (simp_all add: emit_def)
      show ?thesis
      proof (cases "py_add (e_total_timesteps experiment) n")
        case (Inl e)
        with run pre have "r = Inl e" "w' = ?w1"
          by (simp_all add: continue_experiement_with_monitoring_def Let_def)
        with tr1 pre Inl show ?thesis by auto
      next
        case (Inr new_total)
        let ?fl = "[Set_total_timesteps new_total, Set_status PENDING,
                Set_model_params ?mp, Set_owner user]"
        obtain r2 w2 where u: "update_experiment ?i ?fl ?w1 = (r2, w2)"
          by (cases "update_experiment ?i ?fl ?w1")
        from update_experiment_trace [OF u]
        show ?thesis
        proof
          assume "\<exists>e. r2 = Inl e \<and> w2 = ?w1 \<and> ?i \<notin> set (map e_id (experiments ?w1))"
          then obtain e where e: "r2 = Inl e" "w2 = ?w1" "?i \<notin> set (map e_id (experiments w))"
            using tr1 by auto
          with run pre Inr u have "r = Inl e" "w' = ?w1"
            by (simp_all add: continue_experiement_with_monitoring_def Let_def)
          with tr1 pre e show ?thesis by auto
        next
          assume a: "r2 = Inr () \<and> ?i \<in> set (map e_id (experiments ?w1)) \<and>
            trace w2 = trace ?w1 @ [Updated ?i ?fl] \<and> files w2 = files ?w1 \<and>
            experiments w2 = map (\<lambda>e. if e_id e = ?i then fold set_field ?fl e else e)
               (experiments ?w1)"
          then have in0: "?i \<in> set (map e_id (experiments w))" using tr1 by simp
          from a tr1 have tr2: "trace w2 = trace w @ [Checkpointed log_dir, Updated ?i ?fl]"
            and f2: "files w2 = files2"
            and ex2: "experiments w2 = map (\<lambda>e. if e_id e = ?i then fold set_field ?fl e else e)
               (experiments w)" by simp_all
          have ids2: "map e_id (experiments w2) = map e_id (experiments w)"
            unfolding ex2 by (simp add: comp_def)
          have rows2: "\<forall>x \<in> set (experiments w2). e_id x = ?i \<longrightarrow>
              e_total_timesteps x = new_total \<and> e_status x = PENDING \<and> e_owner x = user \<and>
              e_model_params x = ?mp"
            unfolding ex2 by auto
          let ?p = "\<lparr>p_experiment = ?ex, p_log_dir = log_dir, p_runner = t,
                   p_env_id = e_env_id experiment, p_params = ?mp\<rparr>"
          obtain r3 w3 where l: "launch ext ?ex ?p w2 = (r3, w3)"
            by (cases "launch ext ?ex ?p w2")
          from launch_quiet [OF l] obtain evs3 where
            q3: "\<forall>j. statuses_written j (trace w3) = statuses_written j (trace w2)"
            "experiments w3 = experiments w2" "files w3 = files w2"
            "trace w3 = trace w2 @ evs3" by blast
          from q3(1,4) have st3: "\<forall>j. statuses_written j evs3 = []" by simp
          show ?thesis
          proof (cases r3)
            case (Inl e)
            with run pre Inr u a l have res: "r = Inl e" "w' = w3"
              by (simp_all add: continue_experiement_with_monitoring_def Let_def)
            have "trace w' = trace w @ Checkpointed log_dir # Updated ?i ?fl # evs3"
              using res q3 tr2 by simp
            with res q3 f2 ids2 rows2 st3 in0 pre \<open>py_add (e_total_timesteps experiment) n = Inr new_total\<close>
            show ?thesis by (intro disjI2 exI conjI) (assumption | simp)+
          next
            case (Inr pid_n)
            obtain r4 w4 where u4: "update_experiment ?i [Set_pid pid_n] w3 = (r4, w4)"
              by (cases "update_experiment ?i [Set_pid pid_n] w3")
            from in0 ids2 q3 have in3: "?i \<in> set (map e_id (experiments w3))" by simp
            from update_experiment_trace [OF u4] in3
            have a4: "r4 = Inr ()" "trace w4 = trace w3 @ [Updated ?i [Set_pid pid_n]]"
              "files w4 = files w3"
              "experiments w4 = map (\<lambda>e. if e_id e = ?i then fold set_field [Set_pid pid_n] e else e)
                 (experiments w3)" by auto
            from run pre \<open>py_add (e_total_timesteps experiment) n = Inr new_total\<close> u a l Inr u4 a4
            have res: "r = Inr ?ex" "w' = w4"
              by (simp_all add: continue_experiement_with_monitoring_def Let_def)
            have tr: "trace w' = trace w @ Checkpointed log_dir # Updated ?i ?fl
                # (evs3 @ [Updated ?i [Set_pid pid_n]])"
              using res q3 tr2 a4 by simp
            have st: "\<forall>j. statuses_written j (evs3 @ [Updated ?i [Set_pid pid_n]]) = []"
              using st3 by simp
            have ids: "map e_id (experiments w') = map e_id (experiments w)"
              using res a4(4) q3(2) ids2 by (simp only: update_rows_ids)
            have rows: "\<forall>x \<in> set (experiments w'). e_id x = ?i \<longrightarrow>
              e_total_timesteps x = new_total \<and> e_status x = PENDING \<and> e_owner x = user \<and>
              e_model_params x = ?mp"
              using res a4 q3 rows2 by auto
            have fl: "files w' = files2" using res a4 q3 f2 by simp
            from res tr st ids rows fl in0 pre \<open>py_add (e_total_timesteps experiment) n = Inr new_total\<close>
            show ?thesis by (intro disjI2 exI conjI) (assumption | simp)+
          qed
        qed
      qed
    qed
  qed
qed

section \<open>Proofs: the claims on the orchestration\<close>

text \<open>
  C1. Evaluated on the code: the supervisor runs with the default \<^verbatim>\<open>num_envs=1\<close> while one
  client is AVAILABLE. It reserves the client, then raises IndexError in the statement that
  builds the pair, which stands before the \<^verbatim>\<open>try\<close> block: the \<^verbatim>\<open>finally\<close> block does not
  run, and the client is still RESERVED and held by the experiment when the exception
  leaves \<^verbatim>\<open>train_model\<close>.
\<close>

theorem train_model_leaves_client_reserved:
  "map_option (\<lambda>(r, w'). (r, clients w', trace w'))
     (train_model exp1 [''rosalind'', ''logs'', ''e1''] returns_at_once ''maze''
        [(''total_timesteps'', IntV 1000)] 1 world0)
   = Some (Inl (Exn IndexError ''list index out of range'' []),
       [\<lparr>c_address = ''127.0.0.1:10000'', c_status = RESERVED,
          c_current_experiment = Some ''e1''\<rparr>],
       [Reserved ''127.0.0.1:10000'' ''e1''])"
  by code_simp

text \<open>
  C3. Evaluated on the code: after the reservation returned \<^verbatim>\<open>127.0.0.1:10000\<close>, whose parts
  are the host \<^verbatim>\<open>127.0.0.1\<close> and the port text \<^verbatim>\<open>10000\<close>, the loop raises IndexError instead
  of appending a pair made of them.
\<close>

theorem reserved_address_is_not_parsed:
  "map_option fst (reserve_clients ''e1'' 1 [] None world0)
     = Some (Inl (Exn IndexError ''list index out of range'' []))
   \<and> py_split CHR '':'' ''127.0.0.1:10000'' = [''127.0.0.1'', ''10000'']"
  by code_simp

text \<open>
  C2, as stated, fails: in a group of three whose second member is of a model that is not
  registered, the call raises KeyError, only the first member has a process started, and
  the third keeps its status and has nothing written for it.
\<close>

theorem continue_experiment_group_counterexample:
  "(case continue_experiment_group ext0 ''u1'' ''g1'' 500 world_group of
      (r, w') \<Rightarrow> (r, map (\<lambda>p. e_id (p_experiment p)) (processes w'),
                   map e_status (experiments w'), statuses_written ''e3'' (trace w')))
   = (Inl (Exn KeyError ''The model ppo has not been implemented.'' []),
      [''e1''], [PENDING, COMPLETED, COMPLETED], [])"
  by code_simp

lemma continue_experiments_append:
  "continue_experiments ext user n (xs @ ys) w =
     (case continue_experiments ext user n xs w of
        (Inl e, w1) \<Rightarrow> (Inl e, w1)
      | (Inr _, w1) \<Rightarrow> continue_experiments ext user n ys w1)"
  by (induction xs arbitrary: w) (auto split: prod.splits sum.splits)

text \<open>
  C2, amended. The members are relaunched in retrieval order up to the first one whose
  relaunch raises: that exception leaves \<^verbatim>\<open>continue_experiment_group\<close>, and the world is left
  as that member's call left it, so no later member is relaunched.
\<close>

theorem continue_experiment_group_stops_at_first_failure:
  assumes "get_experiments_by_group_id group_id w = before @ x # rest"
    and "continue_experiments ext user n before w = (Inr (), w1)"
    and "continue_experiement_with_monitoring ext user x n w1 = (Inl e, w2)"
  shows "continue_experiment_group ext user group_id n w = (Inl e, w2)"
  using assms by (simp add: continue_experiment_group_def continue_experiments_append)

theorem continue_experiment_group_stops_at_first_failure_witness:
  "get_experiments_by_group_id ''g1'' world_group = [exp1] @ exp2 # [exp3] \<and>
   fst (continue_experiments ext0 ''u1'' 500 [exp1] world_group) = Inr () \<and>
   fst (continue_experiement_with_monitoring ext0 ''u1'' exp2 500
          (snd (continue_experiments ext0 ''u1'' 500 [exp1] world_group)))
     = Inl (Exn KeyError ''The model ppo has not been implemented.'' []) \<and>
   fst (continue_experiment_group ext0 ''u1'' ''g1'' 500 world_group)
     = Inl (Exn KeyError ''The model ppo has not been implemented.'' [])"
proof -
  have g: "get_experiments_by_group_id ''g1'' world_group = [exp1] @ exp2 # [exp3]"
    by (simp add: get_experiments_by_group_id_def world_group_def world0_def exp1_def exp2_def
        exp3_def)
  have f1: "fst (continue_experiments ext0 ''u1'' 500 [exp1] world_group) = Inr ()"
    by code_simp
  obtain w1 where r1: "continue_experiments ext0 ''u1'' 500 [exp1] world_group = (Inr (), w1)"
    using f1 by (cases "continue_experiments ext0 ''u1'' 500 [exp1] world_group") simp
  have m: "MODELS (e_model exp2) = None" by (simp add: MODELS_def exp2_def)
  have r2: "continue_experiement_with_monitoring ext0 ''u1'' exp2 500 w1
      = (Inl (Exn KeyError ''The model ppo has not been implemented.'' []), w1)"
    using m by (simp add: continue_experiement_with_monitoring_def exp2_def)
  from continue_experiment_group_stops_at_first_failure [OF g r1 r2] g f1 r1 r2
  show ?thesis by simp
qed

text \<open>
  C4, as stated, fails: resuming a finished experiment twice, while its worker has not yet
  set it RUNNING, writes PENDING twice in a row.
\<close>

theorem resume_twice_counterexample:
  "(case continue_experiement_with_monitoring ext0 ''u1'' exp1 500 world0 of
      (Inl e, w1) \<Rightarrow> []
    | (Inr experiment, w1) \<Rightarrow>
        (case continue_experiement_with_monitoring ext0 ''u1'' experiment 500 w1 of
           (r, w2) \<Rightarrow> statuses_written ''e1'' (trace w2)))
   = [PENDING, PENDING]
   \<and> \<not> lifecycle [PENDING, PENDING]"
  by code_simp

text \<open>
  C4, amended. A run of \<^verbatim>\<open>train_model\<close> writes statuses for its own experiment only, and
  what it writes is nothing, or RUNNING alone, or RUNNING followed by COMPLETED, or RUNNING
  followed by FAILED; so COMPLETED and FAILED are written only right after RUNNING in the
  same run. A call of \<^verbatim>\<open>continue_experiement_with_monitoring\<close> writes at most one status,
  PENDING, for its experiment, and every call that returns has written it, whatever the
  status of the experiment was.
\<close>

theorem status_writes_per_operation:
  "(train_model experiment log_dir model_runner env_id model_params num_envs w = Some (r, w')
      \<longrightarrow> (\<exists>ws. (\<forall>j. statuses_written j (trace w') =
                    statuses_written j (trace w) @ (if j = e_id experiment then ws else []))
               \<and> (ws = [] \<or> ws = [RUNNING] \<or> ws = [RUNNING, COMPLETED]
                    \<or> ws = [RUNNING, FAILED])))
   \<and> (continue_experiement_with_monitoring ext user experiment n w = (r2, w2)
      \<longrightarrow> (\<exists>ws. (\<forall>j. statuses_written j (trace w2) =
                    statuses_written j (trace w) @ (if j = e_id experiment then ws else []))
               \<and> (ws = [] \<or> ws = [PENDING]) \<and> (\<forall>x. r2 = Inr x \<longrightarrow> ws = [PENDING])))"
proof (intro conjI impI)
  assume "train_model experiment log_dir model_runner env_id model_params num_envs w
    = Some (r, w')"
  from train_model_effects [OF this] obtain ws ms where
    "\<forall>j. statuses_written j (trace w') =
        statuses_written j (trace w) @ (if j = e_id experiment then ws else [])"
    "ws = [] \<or> ws = [RUNNING] \<or> ws = [RUNNING, COMPLETED] \<or> ws = [RUNNING, FAILED]"
    by blast
  then show "\<exists>ws. (\<forall>j. statuses_written j (trace w') =
                    statuses_written j (trace w) @ (if j = e_id experiment then ws else []))
               \<and> (ws = [] \<or> ws = [RUNNING] \<or> ws = [RUNNING, COMPLETED]
                    \<or> ws = [RUNNING, FAILED])" by blast
next
  assume "continue_experiement_with_monitoring ext user experiment n w = (r2, w2)"
  from continue_cases [OF this]
  show "\<exists>ws. (\<forall>j. statuses_written j (trace w2) =
                    statuses_written j (trace w) @ (if j = e_id experiment then ws else []))
               \<and> (ws = [] \<or> ws = [PENDING]) \<and> (\<forall>x. r2 = Inr x \<longrightarrow> ws = [PENDING])"
  proof (elim disjE exE conjE)
    fix e assume "r2 = Inl e" "trace w2 = trace w"
    then show ?thesis by (intro exI [of _ "[]"]) simp
  next
    fix e assume "r2 = Inl e" "trace w2 = trace w"
    then show ?thesis by (intro exI [of _ "[]"]) simp
  next
    fix e assume "r2 = Inl e" "trace w2 = trace w"
    then show ?thesis by (intro exI [of _ "[]"]) simp
  next
    fix t log_dir files1 files2 e
    assume "r2 = Inl e" "trace w2 = trace w @ [Checkpointed log_dir]"
    then show ?thesis by (intro exI [of _ "[]"]) simp
  next
    fix t log_dir files1 files2 e
    assume "r2 = Inl e" "trace w2 = trace w @ [Checkpointed log_dir]"
    then show ?thesis by (intro exI [of _ "[]"]) simp
  next
    fix t log_dir files1 files2 new_total evs
    assume "trace w2 = trace w @ Checkpointed log_dir #
             Updated (e_id experiment)
               [Set_total_timesteps new_total, Set_status PENDING,
                Set_model_params
                  (AList.update ''total_timesteps'' (IntV n)
                    (AList.update ''load_path'' (PathV (log_dir @ [''model.pkl'']))
                      (e_model_params experiment))),
                Set_owner user] # evs"
      and "\<forall>j. statuses_written j evs = []"
    then show ?thesis by (intro exI [of _ "[PENDING]"]) simp
  qed
qed

theorem status_writes_per_operation_witness:
  "map_option (\<lambda>(r, w'). statuses_written ''e1'' (trace w'))
     (train_model exp1 [''rosalind'', ''logs'', ''e1''] raises_boom ''maze''
        [(''total_timesteps'', IntV 1000)] 0 world0) = Some [RUNNING, FAILED]
   \<and> (case continue_experiement_with_monitoring ext0 ''u1'' exp1 500 world0 of
        (r2, w2) \<Rightarrow> (r2 = Inl undefined, statuses_written ''e1'' (trace w2)))
      = (False, [PENDING])"
proof -
  have a: "map_option (\<lambda>(r, w'). statuses_written ''e1'' (trace w'))
     (train_model exp1 [''rosalind'', ''logs'', ''e1''] raises_boom ''maze''
        [(''total_timesteps'', IntV 1000)] 0 world0) = Some [RUNNING, FAILED]"
    by code_simp
  then obtain r w' where run: "train_model exp1 [''rosalind'', ''logs'', ''e1''] raises_boom
      ''maze'' [(''total_timesteps'', IntV 1000)] 0 world0 = Some (r, w')"
    by (cases "train_model exp1 [''rosalind'', ''logs'', ''e1''] raises_boom
      ''maze'' [(''total_timesteps'', IntV 1000)] 0 world0") auto
  obtain r2 w2 where c: "continue_experiement_with_monitoring ext0 ''u1'' exp1 500 world0
      = (r2, w2)"
    by (cases "continue_experiement_with_monitoring ext0 ''u1'' exp1 500 world0")
  have ok: "fst (continue_experiement_with_monitoring ext0 ''u1'' exp1 500 world0)
      = Inr (exp1\<lparr>e_model_params := [(''total_timesteps'', IntV 500),
            (''load_path'', PathV [''rosalind'', ''logs'', ''e1'', ''model.pkl''])]\<rparr>)"
    by code_simp
  have t0: "trace world0 = []" by (simp add: world0_def)
  have i1: "e_id exp1 = ''e1''" by (simp add: exp1_def)
  from status_writes_per_operation [of exp1 "[''rosalind'', ''logs'', ''e1'']" raises_boom
      "''maze''" "[(''total_timesteps'', IntV 1000)]" 0 world0 r w' ext0 "''u1''" 500 r2 w2]
    run c
  obtain ws where "\<forall>j. statuses_written j (trace w2) =
        statuses_written j (trace world0) @ (if j = e_id exp1 then ws else [])"
    "\<forall>x. r2 = Inr x \<longrightarrow> ws = [PENDING]" by blast
  with ok c t0 i1 have "statuses_written ''e1'' (trace w2) = [PENDING]" "r2 \<noteq> Inl undefined"
    by auto
  with a c show ?thesis by simp
qed

text \<open>
  C5, as stated, fails: when the owner of the experiment is not a registered user, the run
  writes RUNNING and COMPLETED and sends no message.
\<close>

theorem train_model_unknown_owner_counterexample:
  "map_option (\<lambda>(r, w'). (statuses_written ''e1'' (trace w'), messages_sent (trace w')))
     (train_model exp1 [''rosalind'', ''logs'', ''e1''] returns_at_once ''maze''
        [(''total_timesteps'', IntV 1000)] 0 (world0\<lparr>users := []\<rparr>))
   = Some ([RUNNING, COMPLETED], [])"
  by code_simp

text \<open>
  C5, amended. For a run of \<^verbatim>\<open>train_model\<close>, the statuses written for the experiment and the
  messages sent are one of: nothing and no message; RUNNING and no message; RUNNING,
  COMPLETED and the success message; RUNNING, FAILED and the failure message. A success or
  failure message is sent once, to the owner, when the owner is a registered user, and not
  at all when the owner is not found. The text of the failure message ends with the whole
  traceback text of the exception that the training entry point raised in this run: the
  call made with this run's log directory, environment, client list and parameters, on the
  files as the log handler left them.
\<close>

theorem train_model_notifies_once:
  assumes "train_model experiment log_dir model_runner env_id model_params num_envs w
      = Some (r, w')"
  shows "\<exists>ws ms.
     statuses_written (e_id experiment) (trace w')
       = statuses_written (e_id experiment) (trace w) @ ws \<and>
     messages_sent (trace w') = messages_sent (trace w) @ ms \<and>
     ((ws = [] \<and> ms = []) \<or>
      (ws = [RUNNING] \<and> ms = []) \<or>
      (ws = [RUNNING, COMPLETED] \<and>
         ms = (case map_of (users w) (e_owner experiment) of
                 None \<Rightarrow> []
               | Some chat_id \<Rightarrow> [(chat_id, completed_message (e_id experiment))])) \<or>
      (ws = [RUNNING, FAILED] \<and>
         (\<exists>fs e fs'. open_append (files w) (log_dir @ [''train.log'']) = Inr fs \<and>
            model_runner \<lparr>r_log_dir = log_dir, r_env_id = env_id, r_client_pool = [],
               r_ignore_steps = 10, r_params = model_params\<rparr> fs = (Some e, fs') \<and>
            ms = (case map_of (users w) (e_owner experiment) of
                    None \<Rightarrow> []
                  | Some chat_id \<Rightarrow>
                      [(chat_id, ''The experiment with id '' @ e_id experiment @ '' failed!''
                         @ ''Traceback: '' @ [CHR 0x0A] @ '' '' @ format_exc e)]))))"
proof -
  from train_model_effects [OF assms] obtain ws ms where
    st: "\<forall>j. statuses_written j (trace w') =
        statuses_written j (trace w) @ (if j = e_id experiment then ws else [])"
    and ms: "messages_sent (trace w') = messages_sent (trace w) @ ms"
    and cases: "(ws = [] \<and> ms = []) \<or>
      (ws = [RUNNING] \<and> ms = []) \<or>
      (ws = [RUNNING, COMPLETED] \<and>
         (map_of (users w) (e_owner experiment) = None \<and> ms = [] \<or>
          (\<exists>chat. map_of (users w) (e_owner experiment) = Some chat \<and>
             ms = [(chat, completed_message (e_id experiment))]))) \<or>
      (ws = [RUNNING, FAILED] \<and>
         (\<exists>fs e fs'. open_append (files w) (log_dir @ [''train.log'']) = Inr fs \<and>
            model_runner \<lparr>r_log_dir = log_dir, r_env_id = env_id,
               r_client_pool = [], r_ignore_steps = 10, r_params = model_params\<rparr>
               fs = (Some e, fs') \<and>
            (map_of (users w) (e_owner experiment) = None \<and> ms = [] \<or>
             (\<exists>chat. map_of (users w) (e_owner experiment) = Some chat \<and>
                ms = [(chat, failed_message (e_id experiment) (format_exc e))]))))"
    by blast
  from st have st': "statuses_written (e_id experiment) (trace w')
       = statuses_written (e_id experiment) (trace w) @ ws" by simp
  from cases have "(ws = [] \<and> ms = []) \<or>
      (ws = [RUNNING] \<and> ms = []) \<or>
      (ws = [RUNNING, COMPLETED] \<and>
         ms = (case map_of (users w) (e_owner experiment) of
                 None \<Rightarrow> []
               | Some chat_id \<Rightarrow> [(chat_id, completed_message (e_id experiment))])) \<or>
      (ws = [RUNNING, FAILED] \<and>
         (\<exists>fs e fs'. open_append (files w) (log_dir @ [''train.log'']) = Inr fs \<and>
            model_runner \<lparr>r_log_dir = log_dir, r_env_id = env_id, r_client_pool = [],
               r_ignore_steps = 10, r_params = model_params\<rparr> fs = (Some e, fs') \<and>
            ms = (case map_of (users w) (e_owner experiment) of
                    None \<Rightarrow> []
                  | Some chat_id \<Rightarrow>
                      [(chat_id, ''The experiment with id '' @ e_id experiment @ '' failed!''
                         @ ''Traceback: '' @ [CHR 0x0A] @ '' '' @ format_exc e)])))"
    unfolding failed_message_def by (elim disjE conjE exE) auto
  with st' ms show ?thesis by blast
qed

theorem train_model_notifies_once_witness:
  "map_option (\<lambda>(r, w'). (statuses_written ''e1'' (trace w'), messages_sent (trace w')))
     (train_model exp1 [''rosalind'', ''logs'', ''e1''] raises_boom ''maze''
        [(''total_timesteps'', IntV 1000)] 0 world0)
   = Some ([RUNNING, FAILED],
       [(''chat1'', ''The experiment with id e1 failed!Traceback: '' @ [CHR 0x0A]
           @ '' Traceback (most recent call last): RuntimeError: boom'')])"
proof -
  have a: "map_option (\<lambda>(r, w'). (statuses_written ''e1'' (trace w'), messages_sent (trace w')))
     (train_model exp1 [''rosalind'', ''logs'', ''e1''] raises_boom ''maze''
        [(''total_timesteps'', IntV 1000)] 0 world0)
   = Some ([RUNNING, FAILED],
       [(''chat1'', ''The experiment with id e1 failed!Traceback: '' @ [CHR 0x0A]
           @ '' Traceback (most recent call last): RuntimeError: boom'')])"
    by code_simp
  then obtain r w' where run: "train_model exp1 [''rosalind'', ''logs'', ''e1''] raises_boom
      ''maze'' [(''total_timesteps'', IntV 1000)] 0 world0 = Some (r, w')"
    by (cases "train_model exp1 [''rosalind'', ''logs'', ''e1''] raises_boom
      ''maze'' [(''total_timesteps'', IntV 1000)] 0 world0") auto
  from train_model_notifies_once [OF run] a show ?thesis by simp
qed

text \<open>
  C6, as stated, fails: the function adds the extra steps to the \<^verbatim>\<open>total_timesteps\<close> of the
  object it is handed, not to the persisted value, and it returns that object with the old
  value. Resuming again with the returned object, the persisted total is 1500 before the
  call and, with 500 extra steps, 1500 after it.
\<close>

theorem continue_stale_object_counterexample:
  "(case continue_experiement_with_monitoring ext0 ''u1'' exp1 500 world0 of
      (Inl e, w1) \<Rightarrow> ([], [])
    | (Inr experiment, w1) \<Rightarrow>
        (map e_total_timesteps (experiments w1),
         case continue_experiement_with_monitoring ext0 ''u1'' experiment 500 w1 of
           (r, w2) \<Rightarrow> map e_total_timesteps (experiments w2)))
   = ([IntV 1500], [IntV 1500])"
  by code_simp

text \<open>
  C6, amended. The model of the experiment is registered, a record of its id is persisted,
  and the object handed in has \<^verbatim>\<open>total_timesteps\<close> T. When making sure that the log directory
  exists raises, or taking the checkpoint raises, that exception leaves
  \<^verbatim>\<open>continue_experiement_with_monitoring\<close> and nothing is persisted. Otherwise every record of
  that id is persisted with \<^verbatim>\<open>total_timesteps\<close> T + S, status PENDING and the \<^verbatim>\<open>load_path\<close>
  parameter; the checkpoint was taken first, before the update that persists them; and the
  files are as the checkpoint left them.
\<close>

theorem continue_persists_after_checkpoint:
  assumes reg: "MODELS (e_model experiment) = Some t"
    and row: "e_id experiment \<in> set (map e_id (experiments w))"
    and total: "e_total_timesteps experiment = IntV T"
    and run: "continue_experiement_with_monitoring ext user experiment S w = (r, w')"
  shows "case build_log_dir (module_dir ext) (e_id experiment) (files w) of
      (Inl e, f) \<Rightarrow> r = Inl e \<and> experiments w' = experiments w \<and> trace w' = trace w
    | (Inr log_dir, files1) \<Rightarrow>
        (case save_experiment_checkpoint log_dir files1 of
           (Some e, f) \<Rightarrow> r = Inl e \<and> experiments w' = experiments w \<and> trace w' = trace w
         | (None, files2) \<Rightarrow>
             (\<exists>x \<in> set (experiments w'). e_id x = e_id experiment) \<and>
             list_all (\<lambda>x. e_id x \<noteq> e_id experiment \<or>
                  e_total_timesteps x = IntV (T + S) \<and> e_status x = PENDING \<and>
                  map_of (e_model_params x) ''load_path''
                    = Some (PathV (log_dir @ [''model.pkl''])))
               (experiments w') \<and>
             (\<exists>evs. trace w' = trace w @ Checkpointed log_dir #
                Updated (e_id experiment)
                  [Set_total_timesteps (IntV (T + S)), Set_status PENDING,
                   Set_model_params
                     (AList.update ''total_timesteps'' (IntV S)
                        (AList.update ''load_path'' (PathV (log_dir @ [''model.pkl'']))
                           (e_model_params experiment))),
                   Set_owner user] # evs) \<and>
             files w' = files2)"
proof -
  have add: "py_add (e_total_timesteps experiment) S = Inr (IntV (T + S))"
    using total by (simp add: py_add_def)
  obtain bl files1 where b: "build_log_dir (module_dir ext) (e_id experiment) (files w) = (bl, files1)"
    by (cases "build_log_dir (module_dir ext) (e_id experiment) (files w)")
  show ?thesis
  proof (cases bl)
    case (Inl e)
    with continue_cases [OF run] reg b show ?thesis by auto
  next
    case (Inr log_dir)
    obtain ck files2 where c: "save_experiment_checkpoint log_dir files1 = (ck, files2)"
      by (cases "save_experiment_checkpoint log_dir files1")
    show ?thesis
    proof (cases ck)
      case (Some e)
      with continue_cases [OF run] reg b Inr c show ?thesis by auto
    next
      case None
      from continue_cases [OF run] reg b Inr c None add row
      obtain evs where
        tr: "trace w' = trace w @ Checkpointed log_dir #
           Updated (e_id experiment)
             [Set_total_timesteps (IntV (T + S)), Set_status PENDING,
              Set_model_params
                (AList.update ''total_timesteps'' (IntV S)
                   (AList.update ''load_path'' (PathV (log_dir @ [''model.pkl'']))
                      (e_model_params experiment))),
              Set_owner user] # evs"
        and fl: "files w' = files2"
        and ids: "map e_id (experiments w') = map e_id (experiments w)"
        and rows: "\<forall>x \<in> set (experiments w'). e_id x = e_id experiment \<longrightarrow>
                  e_total_timesteps x = IntV (T + S) \<and> e_status x = PENDING \<and> e_owner x = user \<and>
                  e_model_params x =
                    AList.update ''total_timesteps'' (IntV S)
                      (AList.update ''load_path'' (PathV (log_dir @ [''model.pkl'']))
                        (e_model_params experiment))"
        by auto
      from row ids have "e_id experiment \<in> set (map e_id (experiments w'))" by simp
      then have ex: "\<exists>x \<in> set (experiments w'). e_id x = e_id experiment" by auto
      have lp: "map_of (AList.update ''total_timesteps'' (IntV S)
                      (AList.update ''load_path'' (PathV (log_dir @ [''model.pkl'']))
                        (e_model_params experiment))) ''load_path''
          = Some (PathV (log_dir @ [''model.pkl'']))"
        by (simp add: update_conv')
      from rows lp have all: "list_all (\<lambda>x. e_id x \<noteq> e_id experiment \<or>
                  e_total_timesteps x = IntV (T + S) \<and> e_status x = PENDING \<and>
                  map_of (e_model_params x) ''load_path''
                    = Some (PathV (log_dir @ [''model.pkl''])))
               (experiments w')"
        by (auto simp: list_all_iff)
      from ex all tr fl b Inr c None show ?thesis by auto
    qed
  qed
qed

theorem continue_persists_after_checkpoint_witness:
  "MODELS (e_model exp1) = Some train_a2c \<and> e_id exp1 \<in> set (map e_id (experiments world0)) \<and>
   e_total_timesteps exp1 = IntV 1000 \<and>
   (case continue_experiement_with_monitoring ext0 ''u1'' exp1 500 world0 of
      (r, w') \<Rightarrow> (map (\<lambda>x. (e_id x, e_total_timesteps x, e_status x)) (experiments w'),
                   take 1 (trace w'), files w'))
   = ([(''e1'', IntV 1500, PENDING)], [Checkpointed [''rosalind'', ''logs'', ''e1'']],
      files world0 @
          [([''rosalind'', ''logs'', ''e1'', ''checkpoint''], Dir),
           ([''rosalind'', ''logs'', ''e1'', ''checkpoint'', ''model.pkl''], File ''weights'')])"
proof -
  have reg: "MODELS (e_model exp1) = Some train_a2c" by (simp add: MODELS_def exp1_def)
  have row: "e_id exp1 \<in> set (map e_id (experiments world0))" by (simp add: world0_def)
  have total: "e_total_timesteps exp1 = IntV 1000" by (simp add: exp1_def)
  have ev: "(case continue_experiement_with_monitoring ext0 ''u1'' exp1 500 world0 of
      (r, w') \<Rightarrow> (map (\<lambda>x. (e_id x, e_total_timesteps x, e_status x)) (experiments w'),
                   take 1 (trace w'), files w'))
   = ([(''e1'', IntV 1500, PENDING)], [Checkpointed [''rosalind'', ''logs'', ''e1'']],
      files world0 @
          [([''rosalind'', ''logs'', ''e1'', ''checkpoint''], Dir),
           ([''rosalind'', ''logs'', ''e1'', ''checkpoint'', ''model.pkl''], File ''weights'')])"
    by code_simp
  obtain r w' where run: "continue_experiement_with_monitoring ext0 ''u1'' exp1 500 world0
      = (r, w')"
    by (cases "continue_experiement_with_monitoring ext0 ''u1'' exp1 500 world0")
  from continue_persists_after_checkpoint [OF reg row total run] reg row total ev
  show ?thesis by simp
qed

text \<open>
  C8. A model name that the trainer mapping does not hold makes
  \<^verbatim>\<open>run_new_single_experiment_with_monitoring\<close> raise KeyError at once, and the world it
  leaves is the world it found: no record created or updated, no client reserved, no
  directory made, no process started, nothing sent.
\<close>

theorem run_new_unknown_model:
  "MODELS model = None \<Longrightarrow>
   run_new_single_experiment_with_monitoring ext user model env_id model_params group_id w
     = (Inl (Exn KeyError (''The model '' @ model @ '' has not been implemented.'') []), w)"
  by (simp add: run_new_single_experiment_with_monitoring_def)

theorem run_new_unknown_model_witness:
  "MODELS ''ppo'' = None \<and>
   run_new_single_experiment_with_monitoring ext0 ''u1'' ''ppo'' ''maze''
       [(''total_timesteps'', IntV 1000)] None world0
     = (Inl (Exn KeyError ''The model ppo has not been implemented.'' []), world0)"
proof -
  have h: "MODELS ''ppo'' = None" by (simp add: MODELS_def)
  from run_new_unknown_model [OF h] h show ?thesis by simp
qed

section \<open>Proofs: the Malmo environment\<close>





text \<open>
  C10. When the world state peeked at the start of \<^verbatim>\<open>step\<close> says that the mission is not
  running, \<^verbatim>\<open>step\<close> ends (it returns or raises), nothing has been sent to the agent host nor
  waited for, the counter \<^verbatim>\<open>num_actions\<close> is as before, and a result that is returned has
  the flag \<^verbatim>\<open>done\<close> set.
\<close>

theorem step_after_mission_end:
  assumes "\<not> is_mission_running (h_states (m_agent_host self) (h_queries (m_agent_host self)))"
  shows "\<exists>res self'. step lib action self = Some (res, self') \<and>
     h_log (m_agent_host self') = h_log (m_agent_host self) \<and>
     m_num_actions self' = m_num_actions self \<and>
     (\<forall>obs reward done info. res = Inr (obs, reward, done, info) \<longrightarrow> done)"
proof -
  let ?ws = "h_states (m_agent_host self) (h_queries (m_agent_host self))"
  let ?self1 = "self\<lparr>m_agent_host := (m_agent_host self)\<lparr>h_queries := Suc (h_queries (m_agent_host self))\<rparr>\<rparr>"
  have st: "step lib action self = Some (step_report lib ?self1 ?ws)"
    using assms by (simp add: step_def peekWorldState_def)
  have rep: "h_log (m_agent_host (snd (step_report lib s ?ws))) = h_log (m_agent_host s) \<and>
     m_num_actions (snd (step_report lib s ?ws)) = m_num_actions s \<and>
     (\<forall>obs reward done info. fst (step_report lib s ?ws) = Inr (obs, reward, done, info) \<longrightarrow> done)"
    for s
    using assms
    by (auto simp: step_report_def get_observation_def get_video_frame_def
        update_replay_buffer_and_get_observation_def Let_def
        split: option.splits sum.splits prod.splits if_splits)
  obtain res self' where r: "step_report lib ?self1 ?ws = (res, self')"
    by (cases "step_report lib ?self1 ?ws")
  note rep1 = rep [of ?self1, unfolded r fst_conv snd_conv]
  have sel: "h_log (m_agent_host ?self1) = h_log (m_agent_host self)"
    "m_num_actions ?self1 = m_num_actions self" by simp_all
  from rep1 [unfolded sel] st [unfolded r] show ?thesis by blast
qed

theorem step_after_mission_end_witness:
  "\<not> is_mission_running (h_states (m_agent_host env0) (h_queries (m_agent_host env0))) \<and>
   map_option (\<lambda>(res, self').
       (case res of Inl e \<Rightarrow> None | Inr (obs, reward, done, info) \<Rightarrow> Some done,
        h_log (m_agent_host self'), m_num_actions self'))
     (step lib0 (Num 0) env0)
   = Some (Some True, [], 4)"
proof -
  have h: "\<not> is_mission_running (h_states (m_agent_host env0) (h_queries (m_agent_host env0)))"
    by (simp add: env0_def host0_def ws_over_def)
  have ev: "map_option (\<lambda>(res, self').
       (case res of Inl e \<Rightarrow> None | Inr (obs, reward, done, info) \<Rightarrow> Some done,
        h_log (m_agent_host self'), m_num_actions self'))
     (step lib0 (Num 0) env0)
   = Some (Some True, [], 4)"
    by code_simp
  from step_after_mission_end [OF h, of lib0 "Num 0"] h ev show ?thesis by simp
qed

end
